theory Spec2Isabelle
  imports Main
begin

section \<open>The network commands of vcd-cli\<close>

text \<open>
  The module \<^verbatim>\<open>vcd_cli/network.py\<close> declares ten click commands under the group
  \<^verbatim>\<open>network\<close>: create, list, delete and update for external networks, and create,
  list and delete for direct and for isolated org vdc networks. Every handler restores
  the cached session, builds a proxy object (\<^verbatim>\<open>Platform\<close> or \<^verbatim>\<open>VDC\<close>), calls one
  method of the SDK on it and prints the result; every exception raised on the way is
  caught by the handler's own \<^verbatim>\<open>except Exception\<close> and handed to \<^verbatim>\<open>stderr\<close>.

  The embedding makes the effects explicit: a run of a command yields an exit status
  and the sequence of events it produced, in the order of the source's statements.
\<close>

subsection \<open>Values\<close>

text \<open>
  A task is an opaque handle. An element is an XML element of a listing, read only
  through \<^verbatim>\<open>get(attribute)\<close>, so it is the association list of its attributes. A
  Python dict with string keys is an association list; \<open>None\<close> is Python's None.
\<close>

type_synonym task = string
type_synonym element = "(string \<times> string) list"
type_synonym py_dict = "(string \<times> string option) list"

text \<open>
  The objects the SDK returns and the helper \<^verbatim>\<open>stdout\<close> prints. \<open>Entity ts\<close> is a
  resource whose \<^verbatim>\<open>Tasks\<close> child holds the tasks \<open>ts\<close> (no child when \<open>ts\<close> is empty).
\<close>

datatype pyobj =
    Task task
  | Entity "task list"
  | Elements "element list"
  | Str string
  | Dicts "py_dict list"

text \<open>
  The failures of the error taxonomy, and \<open>LookupFailure\<close> for the AttributeError,
  IndexError or TypeError Python raises when a result has not the shape the handler
  reads (\<^verbatim>\<open>result.Tasks.Task[0]\<close>, iteration, \<^verbatim>\<open>.get\<close>).
\<close>

datatype error =
    ValidationError string
  | AuthFailure
  | NoVdcSelected
  | RemoteRejected string
  | LookupFailure

subsection \<open>Requests\<close>

text \<open>The keyword arguments of the three create methods, one field per keyword.\<close>

record direct_request =
  dr_network_name :: string
  dr_parent_network_name :: string
  dr_description :: "string option"
  dr_is_shared :: bool

record isolated_request =
  ir_network_name :: string
  ir_gateway_ip :: string
  ir_netmask :: string
  ir_description :: "string option"
  ir_primary_dns_ip :: "string option"
  ir_secondary_dns_ip :: "string option"
  ir_dns_suffix :: "string option"
  ir_ip_range_start :: "string option"
  ir_ip_range_end :: "string option"
  ir_is_dhcp_enabled :: bool
  ir_default_lease_time :: "string option"
  ir_max_lease_time :: "string option"
  ir_dhcp_ip_range_start :: "string option"
  ir_dhcp_ip_range_end :: "string option"
  ir_is_shared :: bool

record external_request =
  er_name :: string
  er_vim_server_name :: string
  er_port_group_names :: "string list"
  er_gateway_ip :: string
  er_netmask :: string
  er_ip_ranges :: "string list"
  er_description :: "string option"
  er_primary_dns_ip :: "string option"
  er_secondary_dns_ip :: "string option"
  er_dns_suffix :: "string option"

text \<open>
  The proxy objects: \<^verbatim>\<open>Platform(client)\<close> and \<^verbatim>\<open>VDC(client, href=in_use_vdc_href)\<close>.
  Building one contacts nothing.
\<close>

datatype proxy =
    Platform string
  | VDC string "string option"

text \<open>The SDK methods the module calls, with their arguments.\<close>

datatype sdk_method =
    Create_directly_connected_vdc_network direct_request
  | Create_isolated_vdc_network isolated_request
  | Create_external_network external_request
  | List_external_networks
  | List_orgvdc_direct_networks
  | List_orgvdc_isolated_networks
  | Delete_direct_orgvdc_network string bool
  | Delete_isolated_orgvdc_network string bool
  | Delete_external_network string
  | Update_external_network string "string option" "string option"

subsection \<open>The world outside the module\<close>

text \<open>
  What a cached session holds: the client (\<^verbatim>\<open>ctx.obj['client']\<close>) and the href of the
  selected vdc (\<^verbatim>\<open>ctx.obj['profiles'].get('vdc_href')\<close>, None when no vdc is selected).
\<close>

record session_context =
  client :: string
  vdc_href :: "string option"

text \<open>
  The environment of one invocation: the cached session (None when there is none to
  restore), the SDK with the remote server behind it (a call returns an object or
  raises), and what the user answers to a confirmation prompt.
\<close>

record world =
  cached_session :: "session_context option"
  sdk :: "proxy \<Rightarrow> sdk_method \<Rightarrow> error + pyobj"
  confirm_answer :: bool

datatype event =
    Prompt string
  | Restore bool
  | Remote proxy sdk_method
  | Stdout pyobj
  | Stderr error

record outcome =
  exit_status :: nat
  events :: "event list"

subsection \<open>Collaborators of the package that the module imports\<close>

definition restore_session :: "world \<Rightarrow> bool \<Rightarrow> error + session_context" where
  \<comment> \<open>Modelled from the spec: \<^verbatim>\<open>vcd_cli.utils.restore_session\<close> is not in the module.
      It rebuilds the session context from the cached session, fails with an
      authentication error when there is none, and with NoVdcSelected when a vdc is
      required and none is selected; it contacts no remote server.\<close>
  "restore_session w vdc_required =
     (case cached_session w of
        None \<Rightarrow> Inl AuthFailure
      | Some ctx \<Rightarrow>
          if vdc_required \<and> vdc_href ctx = None then Inl NoVdcSelected else Inr ctx)"

definition stdout :: "pyobj \<Rightarrow> event list \<Rightarrow> event list" where
  \<comment> \<open>Modelled from the spec: \<^verbatim>\<open>vcd_cli.utils.stdout\<close> is not in the module. It renders
      one object on the output stream and returns.\<close>
  "stdout obj tr = tr @ [Stdout obj]"

definition stderr :: "error \<Rightarrow> event list \<Rightarrow> outcome" where
  \<comment> \<open>Modelled from the spec: \<^verbatim>\<open>vcd_cli.utils.stderr\<close> is not in the module. It writes
      one message for the failure to the error stream and ends the invocation with a
      non-zero status.\<close>
  "stderr e tr = \<lparr>exit_status = 1, events = tr @ [Stderr e]\<rparr>"

definition abort_if_false :: "bool \<Rightarrow> outcome option" where
  \<comment> \<open>Modelled from the spec: \<^verbatim>\<open>vcd_cli.vcd.abort_if_false\<close> is not in the module. It is
      the callback of the option \<^verbatim>\<open>--yes\<close>: on a false value it aborts the invocation
      with a neutral exit, on a true value it lets the command go on (None).\<close>
  "abort_if_false val =
     (if val then None else Some \<lparr>exit_status = 0, events = []\<rparr>)"

definition returned :: "event list \<Rightarrow> outcome" where
  \<comment> \<open>The handler's body reached its end: the process exits with status 0.\<close>
  "returned tr = \<lparr>exit_status = 0, events = tr\<rparr>"

subsection \<open>Reading a result\<close>

definition first_task :: "pyobj \<Rightarrow> error + pyobj" where
  \<comment> \<open>\<^verbatim>\<open>result.Tasks.Task[0]\<close>: the first task of an entity, an exception otherwise.\<close>
  "first_task result =
     (case result of
        Entity (t # ts) \<Rightarrow> Inr (Task t)
      | _ \<Rightarrow> Inl LookupFailure)"

definition iterate :: "pyobj \<Rightarrow> error + element list" where
  \<comment> \<open>\<^verbatim>\<open>for net in nets\<close> with \<^verbatim>\<open>net.get('name')\<close>: the elements of a listing.\<close>
  "iterate result =
     (case result of
        Elements es \<Rightarrow> Inr es
      | _ \<Rightarrow> Inl LookupFailure)"

fun collect_names :: "element list \<Rightarrow> py_dict list \<Rightarrow> py_dict list" where
  \<comment> \<open>The loop \<^verbatim>\<open>for net in nets: result.append({'name': net.get('name')})\<close>.\<close>
  "collect_names [] result = result"
| "collect_names (net # nets) result =
     collect_names nets (result @ [[(''name'', map_of net ''name'')]])"

subsection \<open>The handlers\<close>

text \<open>
  Each definition follows the body of the function of the same name: the statements of
  the \<^verbatim>\<open>try\<close> block in order, every raise ending in the \<^verbatim>\<open>except\<close> branch, which
  calls \<^verbatim>\<open>stderr\<close>. The event list records what has happened so far.
\<close>

definition create_direct_network ::
  "world \<Rightarrow> string \<Rightarrow> string \<Rightarrow> string option \<Rightarrow> bool \<Rightarrow> outcome" where
  "create_direct_network w name parent_network_name description is_shared =
     (case restore_session w True of
        Inl e \<Rightarrow> stderr e [Restore True]
      | Inr ctx \<Rightarrow>
          (let vdc = VDC (client ctx) (vdc_href ctx);
               call = Create_directly_connected_vdc_network
                 \<lparr>dr_network_name = name,
                  dr_parent_network_name = parent_network_name,
                  dr_description = description,
                  dr_is_shared = is_shared\<rparr>;
               tr = [Restore True, Remote vdc call]
           in case sdk w vdc call of
                Inl e \<Rightarrow> stderr e tr
              | Inr result \<Rightarrow>
                  (case first_task result of
                     Inl e \<Rightarrow> stderr e tr
                   | Inr t \<Rightarrow> returned (stdout t tr))))"

definition create_isolated_network ::
  "world \<Rightarrow> string \<Rightarrow> string \<Rightarrow> string \<Rightarrow> string option \<Rightarrow> string option \<Rightarrow>
   string option \<Rightarrow> string option \<Rightarrow> string option \<Rightarrow> string option \<Rightarrow> bool \<Rightarrow>
   string option \<Rightarrow> string option \<Rightarrow> string option \<Rightarrow> string option \<Rightarrow> bool \<Rightarrow> outcome" where
  "create_isolated_network w name gateway_ip netmask description primary_dns_ip
       secondary_dns_ip dns_suffix ip_range_start ip_range_end is_dhcp_enabled
       default_lease_time max_lease_time dhcp_ip_range_start dhcp_ip_range_end is_shared =
     (case restore_session w True of
        Inl e \<Rightarrow> stderr e [Restore True]
      | Inr ctx \<Rightarrow>
          (let vdc = VDC (client ctx) (vdc_href ctx);
               call = Create_isolated_vdc_network
                 \<lparr>ir_network_name = name,
                  ir_gateway_ip = gateway_ip,
                  ir_netmask = netmask,
                  ir_description = description,
                  ir_primary_dns_ip = primary_dns_ip,
                  ir_secondary_dns_ip = secondary_dns_ip,
                  ir_dns_suffix = dns_suffix,
                  ir_ip_range_start = ip_range_start,
                  ir_ip_range_end = ip_range_end,
                  ir_is_dhcp_enabled = is_dhcp_enabled,
                  ir_default_lease_time = default_lease_time,
                  ir_max_lease_time = max_lease_time,
                  ir_dhcp_ip_range_start = dhcp_ip_range_start,
                  ir_dhcp_ip_range_end = dhcp_ip_range_end,
                  ir_is_shared = is_shared\<rparr>;
               tr = [Restore True, Remote vdc call]
           in case sdk w vdc call of
                Inl e \<Rightarrow> stderr e tr
              | Inr result \<Rightarrow>
                  (case first_task result of
                     Inl e \<Rightarrow> stderr e tr
                   | Inr t \<Rightarrow> returned (stdout t tr))))"

definition create_external_network ::
  "world \<Rightarrow> string \<Rightarrow> string \<Rightarrow> string list \<Rightarrow> string \<Rightarrow> string \<Rightarrow> string list \<Rightarrow>
   string option \<Rightarrow> string option \<Rightarrow> string option \<Rightarrow> string option \<Rightarrow> outcome" where
  "create_external_network w name vc_name port_group gateway_ip netmask ip_range
       description primary_dns_ip secondary_dns_ip dns_suffix =
     (case restore_session w False of
        Inl e \<Rightarrow> stderr e [Restore False]
      | Inr ctx \<Rightarrow>
          (let platform = Platform (client ctx);
               call = Create_external_network
                 \<lparr>er_name = name,
                  er_vim_server_name = vc_name,
                  er_port_group_names = port_group,
                  er_gateway_ip = gateway_ip,
                  er_netmask = netmask,
                  er_ip_ranges = ip_range,
                  er_description = description,
                  er_primary_dns_ip = primary_dns_ip,
                  er_secondary_dns_ip = secondary_dns_ip,
                  er_dns_suffix = dns_suffix\<rparr>;
               tr = [Restore False, Remote platform call]
           in case sdk w platform call of
                Inl e \<Rightarrow> stderr e tr
              | Inr ext_net \<Rightarrow>
                  (case first_task ext_net of
                     Inl e \<Rightarrow> stderr e tr
                   | Inr t \<Rightarrow>
                       returned
                         (stdout (Str ''External network created successfully.'')
                            (stdout t tr)))))"

definition list_external_networks :: "world \<Rightarrow> outcome" where
  "list_external_networks w =
     (case restore_session w False of
        Inl e \<Rightarrow> stderr e [Restore False]
      | Inr ctx \<Rightarrow>
          (let platform = Platform (client ctx);
               tr = [Restore False, Remote platform List_external_networks]
           in case sdk w platform List_external_networks of
                Inl e \<Rightarrow> stderr e tr
              | Inr ext_nets \<Rightarrow>
                  (case iterate ext_nets of
                     Inl e \<Rightarrow> stderr e tr
                   | Inr nets \<Rightarrow> returned (stdout (Dicts (collect_names nets [])) tr))))"

definition list_direct_networks :: "world \<Rightarrow> outcome" where
  "list_direct_networks w =
     (case restore_session w True of
        Inl e \<Rightarrow> stderr e [Restore True]
      | Inr ctx \<Rightarrow>
          (let vdc = VDC (client ctx) (vdc_href ctx);
               tr = [Restore True, Remote vdc List_orgvdc_direct_networks]
           in case sdk w vdc List_orgvdc_direct_networks of
                Inl e \<Rightarrow> stderr e tr
              | Inr direct_nets \<Rightarrow>
                  (case iterate direct_nets of
                     Inl e \<Rightarrow> stderr e tr
                   | Inr nets \<Rightarrow> returned (stdout (Dicts (collect_names nets [])) tr))))"

definition list_isolated_networks :: "world \<Rightarrow> outcome" where
  "list_isolated_networks w =
     (case restore_session w True of
        Inl e \<Rightarrow> stderr e [Restore True]
      | Inr ctx \<Rightarrow>
          (let vdc = VDC (client ctx) (vdc_href ctx);
               tr = [Restore True, Remote vdc List_orgvdc_isolated_networks]
           in case sdk w vdc List_orgvdc_isolated_networks of
                Inl e \<Rightarrow> stderr e tr
              | Inr isolated_nets \<Rightarrow>
                  (case iterate isolated_nets of
                     Inl e \<Rightarrow> stderr e tr
                   | Inr nets \<Rightarrow> returned (stdout (Dicts (collect_names nets [])) tr))))"

definition delete_direct_networks :: "world \<Rightarrow> string \<Rightarrow> bool \<Rightarrow> outcome" where
  "delete_direct_networks w name force =
     (case restore_session w True of
        Inl e \<Rightarrow> stderr e [Restore True]
      | Inr ctx \<Rightarrow>
          (let vdc = VDC (client ctx) (vdc_href ctx);
               call = Delete_direct_orgvdc_network name force;
               tr = [Restore True, Remote vdc call]
           in case sdk w vdc call of
                Inl e \<Rightarrow> stderr e tr
              | Inr delete_task \<Rightarrow> returned (stdout delete_task tr)))"

definition delete_isolated_networks :: "world \<Rightarrow> string \<Rightarrow> bool \<Rightarrow> outcome" where
  "delete_isolated_networks w name force =
     (case restore_session w True of
        Inl e \<Rightarrow> stderr e [Restore True]
      | Inr ctx \<Rightarrow>
          (let vdc = VDC (client ctx) (vdc_href ctx);
               call = Delete_isolated_orgvdc_network name force;
               tr = [Restore True, Remote vdc call]
           in case sdk w vdc call of
                Inl e \<Rightarrow> stderr e tr
              | Inr delete_task \<Rightarrow> returned (stdout delete_task tr)))"

definition delete_external_network :: "world \<Rightarrow> string \<Rightarrow> outcome" where
  "delete_external_network w name =
     (case restore_session w False of
        Inl e \<Rightarrow> stderr e [Restore False]
      | Inr ctx \<Rightarrow>
          (let platform = Platform (client ctx);
               call = Delete_external_network name;
               tr = [Restore False, Remote platform call]
           in case sdk w platform call of
                Inl e \<Rightarrow> stderr e tr
              | Inr task \<Rightarrow>
                  returned
                    (stdout (Str ''External network deleted successfully.'')
                       (stdout task tr))))"

definition update_external_network ::
  "world \<Rightarrow> string \<Rightarrow> string option \<Rightarrow> string option \<Rightarrow> outcome" where
  "update_external_network w name new_name new_description =
     (case restore_session w False of
        Inl e \<Rightarrow> stderr e [Restore False]
      | Inr ctx \<Rightarrow>
          (let platform = Platform (client ctx);
               call = Update_external_network name new_name new_description;
               tr = [Restore False, Remote platform call]
           in case sdk w platform call of
                Inl e \<Rightarrow> stderr e tr
              | Inr ext_net \<Rightarrow>
                  (case first_task ext_net of
                     Inl e \<Rightarrow> stderr e tr
                   | Inr t \<Rightarrow>
                       returned
                         (stdout (Str ''External network updated successfully.'')
                            (stdout t tr)))))"

subsection \<open>The command line as click hands it over\<close>

text \<open>
  What the parser found on the command line, per command: an argument or a
  single-valued option is None when it was not given, an option declared
  \<^verbatim>\<open>multiple=True\<close> is the list of its values in the order they were given, an
  on/off flag pair is None when neither switch was given, and a plain flag is whether
  it was given.
\<close>

record direct_create_argv =
  dc_name :: "string option"
  dc_parent :: "string option"
  dc_description :: "string option"
  dc_shared :: "bool option"

record isolated_create_argv =
  ic_name :: "string option"
  ic_gateway :: "string option"
  ic_netmask :: "string option"
  ic_description :: "string option"
  ic_dns1 :: "string option"
  ic_dns2 :: "string option"
  ic_dns_suffix :: "string option"
  ic_ip_range_start :: "string option"
  ic_ip_range_end :: "string option"
  ic_dhcp_enabled :: "bool option"
  ic_default_lease_time :: "string option"
  ic_max_lease_time :: "string option"
  ic_dhcp_ip_range_start :: "string option"
  ic_dhcp_ip_range_end :: "string option"
  ic_shared :: "bool option"

record external_create_argv =
  ec_name :: "string option"
  ec_vc_name :: "string option"
  ec_port_group :: "string list"
  ec_gateway :: "string option"
  ec_netmask :: "string option"
  ec_ip_range :: "string list"
  ec_description :: "string option"
  ec_dns1 :: "string option"
  ec_dns2 :: "string option"
  ec_dns_suffix :: "string option"

record delete_argv =
  del_name :: "string option"
  del_force :: bool
  del_yes :: bool

record external_update_argv =
  eu_name :: "string option"
  eu_new_name :: "string option"
  eu_new_description :: "string option"

text \<open>
  What click does with a declared parameter before it calls the handler. A required
  parameter that is missing is a usage error; so is a required \<^verbatim>\<open>multiple=True\<close> option
  with no value. A usage error is reported by click on the error stream and the process
  exits with status 2; the handler is not called.
\<close>

definition required :: "string \<Rightarrow> 'a option \<Rightarrow> error + 'a" where
  "required param v =
     (case v of None \<Rightarrow> Inl (ValidationError param) | Some x \<Rightarrow> Inr x)"

definition required_multiple :: "string \<Rightarrow> 'a list \<Rightarrow> error + 'a list" where
  "required_multiple param vs =
     (if vs = [] then Inl (ValidationError param) else Inr vs)"

definition or_default :: "'a option \<Rightarrow> 'a \<Rightarrow> 'a" where
  "or_default v d = (case v of None \<Rightarrow> d | Some x \<Rightarrow> x)"

definition usage_error :: "error \<Rightarrow> outcome" where
  "usage_error e = \<lparr>exit_status = 2, events = [Stderr e]\<rparr>"

text \<open>
  An \<^verbatim>\<open>is_flag\<close> option declared with \<^verbatim>\<open>prompt=...\<close>: when the flag is not on the
  command line click asks the question while it processes the parameters, and the
  answer is the option's value.
\<close>

definition prompted_flag :: "world \<Rightarrow> string \<Rightarrow> bool \<Rightarrow> event list \<times> bool" where
  "prompted_flag w question given =
     (if given then ([], True) else ([Prompt question], confirm_answer w))"

definition preceded_by :: "event list \<Rightarrow> outcome \<Rightarrow> outcome" where
  "preceded_by tr out = \<lparr>exit_status = exit_status out, events = tr @ events out\<rparr>"

subsection \<open>The commands: declared parameters, then the handler\<close>

definition direct_create :: "world \<Rightarrow> direct_create_argv \<Rightarrow> outcome" where
  "direct_create w a =
     (case required ''name'' (dc_name a) of
        Inl e \<Rightarrow> usage_error e
      | Inr name \<Rightarrow>
     (case required ''--parent'' (dc_parent a) of
        Inl e \<Rightarrow> usage_error e
      | Inr parent_network_name \<Rightarrow>
          create_direct_network w name parent_network_name
            (Some (or_default (dc_description a) []))
            (or_default (dc_shared a) False)))"

definition isolated_create :: "world \<Rightarrow> isolated_create_argv \<Rightarrow> outcome" where
  "isolated_create w a =
     (case required ''name'' (ic_name a) of
        Inl e \<Rightarrow> usage_error e
      | Inr name \<Rightarrow>
     (case required ''--gateway'' (ic_gateway a) of
        Inl e \<Rightarrow> usage_error e
      | Inr gateway_ip \<Rightarrow>
     (case required ''--netmask'' (ic_netmask a) of
        Inl e \<Rightarrow> usage_error e
      | Inr netmask \<Rightarrow>
          create_isolated_network w name gateway_ip netmask
            (Some (or_default (ic_description a) []))
            (ic_dns1 a) (ic_dns2 a) (ic_dns_suffix a)
            (ic_ip_range_start a) (ic_ip_range_end a)
            (or_default (ic_dhcp_enabled a) False)
            (ic_default_lease_time a) (ic_max_lease_time a)
            (ic_dhcp_ip_range_start a) (ic_dhcp_ip_range_end a)
            (or_default (ic_shared a) False))))"

definition external_create :: "world \<Rightarrow> external_create_argv \<Rightarrow> outcome" where
  "external_create w a =
     (case required ''name'' (ec_name a) of
        Inl e \<Rightarrow> usage_error e
      | Inr name \<Rightarrow>
     (case required ''vc-name'' (ec_vc_name a) of
        Inl e \<Rightarrow> usage_error e
      | Inr vc_name \<Rightarrow>
     (case required_multiple ''--port-group'' (ec_port_group a) of
        Inl e \<Rightarrow> usage_error e
      | Inr port_group \<Rightarrow>
     (case required ''--gateway'' (ec_gateway a) of
        Inl e \<Rightarrow> usage_error e
      | Inr gateway_ip \<Rightarrow>
     (case required ''--netmask'' (ec_netmask a) of
        Inl e \<Rightarrow> usage_error e
      | Inr netmask \<Rightarrow>
     (case required_multiple ''--ip-range'' (ec_ip_range a) of
        Inl e \<Rightarrow> usage_error e
      | Inr ip_range \<Rightarrow>
          create_external_network w name vc_name port_group gateway_ip netmask ip_range
            (Some (or_default (ec_description a) []))
            (ec_dns1 a) (ec_dns2 a) (ec_dns_suffix a)))))))"

definition external_list :: "world \<Rightarrow> outcome" where
  "external_list w = list_external_networks w"

definition direct_list :: "world \<Rightarrow> outcome" where
  "direct_list w = list_direct_networks w"

definition isolated_list :: "world \<Rightarrow> outcome" where
  "isolated_list w = list_isolated_networks w"

definition direct_delete :: "world \<Rightarrow> delete_argv \<Rightarrow> outcome" where
  "direct_delete w a =
     (case required ''name'' (del_name a) of
        Inl e \<Rightarrow> usage_error e
      | Inr name \<Rightarrow>
          (case prompted_flag w
                  ''Are you sure you want to delete the OrgVdc Network?'' (del_yes a) of
             (asked, yes) \<Rightarrow>
               (case abort_if_false yes of
                  Some aborted \<Rightarrow> preceded_by asked aborted
                | None \<Rightarrow>
                    preceded_by asked (delete_direct_networks w name (del_force a)))))"

definition isolated_delete :: "world \<Rightarrow> delete_argv \<Rightarrow> outcome" where
  "isolated_delete w a =
     (case required ''name'' (del_name a) of
        Inl e \<Rightarrow> usage_error e
      | Inr name \<Rightarrow>
          (case prompted_flag w
                  ''Are you sure you want to delete the OrgVdc Network?'' (del_yes a) of
             (asked, yes) \<Rightarrow>
               (case abort_if_false yes of
                  Some aborted \<Rightarrow> preceded_by asked aborted
                | None \<Rightarrow>
                    preceded_by asked (delete_isolated_networks w name (del_force a)))))"

definition external_delete :: "world \<Rightarrow> string option \<Rightarrow> outcome" where
  "external_delete w arg =
     (case required ''name'' arg of
        Inl e \<Rightarrow> usage_error e
      | Inr name \<Rightarrow> delete_external_network w name)"

definition external_update :: "world \<Rightarrow> external_update_argv \<Rightarrow> outcome" where
  "external_update w a =
     (case required ''name'' (eu_name a) of
        Inl e \<Rightarrow> usage_error e
      | Inr name \<Rightarrow>
          update_external_network w name (eu_new_name a) (eu_new_description a))"

text \<open>
  The command tree \<^verbatim>\<open>network\<close> with its groups \<^verbatim>\<open>external\<close>, \<^verbatim>\<open>direct\<close> and
  \<^verbatim>\<open>isolated\<close>: an invocation names one leaf and carries its command line.
\<close>

datatype invocation =
    External_create external_create_argv
  | External_list
  | External_delete "string option"
  | External_update external_update_argv
  | Direct_create direct_create_argv
  | Direct_list
  | Direct_delete delete_argv
  | Isolated_create isolated_create_argv
  | Isolated_list
  | Isolated_delete delete_argv

fun network :: "world \<Rightarrow> invocation \<Rightarrow> outcome" where
  "network w (External_create a) = external_create w a"
| "network w External_list = external_list w"
| "network w (External_delete a) = external_delete w a"
| "network w (External_update a) = external_update w a"
| "network w (Direct_create a) = direct_create w a"
| "network w Direct_list = direct_list w"
| "network w (Direct_delete a) = direct_delete w a"
| "network w (Isolated_create a) = isolated_create w a"
| "network w Isolated_list = isolated_list w"
| "network w (Isolated_delete a) = isolated_delete w a"

subsection \<open>Reading an outcome\<close>

fun is_prompt :: "event \<Rightarrow> bool" where
  "is_prompt (Prompt q) = True"
| "is_prompt ev = False"

fun is_restore :: "event \<Rightarrow> bool" where
  "is_restore (Restore b) = True"
| "is_restore ev = False"

fun is_remote :: "event \<Rightarrow> bool" where
  "is_remote (Remote p m) = True"
| "is_remote ev = False"

fun is_stdout :: "event \<Rightarrow> bool" where
  "is_stdout (Stdout obj) = True"
| "is_stdout ev = False"

fun is_stderr :: "event \<Rightarrow> bool" where
  "is_stderr (Stderr e) = True"
| "is_stderr ev = False"

definition prompts :: "outcome \<Rightarrow> event list" where
  "prompts out = filter is_prompt (events out)"

definition restorations :: "outcome \<Rightarrow> event list" where
  "restorations out = filter is_restore (events out)"

definition remote_calls :: "outcome \<Rightarrow> event list" where
  "remote_calls out = filter is_remote (events out)"

definition output_stream :: "outcome \<Rightarrow> event list" where
  "output_stream out = filter is_stdout (events out)"

definition error_stream :: "outcome \<Rightarrow> event list" where
  "error_stream out = filter is_stderr (events out)"

subsection \<open>The declared required parameters\<close>

text \<open>
  The parameters each command declares as required (\<^verbatim>\<open>required=True\<close>, or an argument,
  which click requires unless it has a default), in the order of the decorators, with
  whether the command line gives them. \<open>missing_parameter\<close> is the first one it lacks.
\<close>

fun first_missing :: "(string \<times> bool) list \<Rightarrow> string option" where
  "first_missing [] = None"
| "first_missing ((param, given) # ps) =
     (if given then first_missing ps else Some param)"

fun missing_parameter :: "invocation \<Rightarrow> string option" where
  "missing_parameter (External_create a) =
     first_missing
       [(''name'', ec_name a \<noteq> None), (''vc-name'', ec_vc_name a \<noteq> None),
        (''--port-group'', ec_port_group a \<noteq> []), (''--gateway'', ec_gateway a \<noteq> None),
        (''--netmask'', ec_netmask a \<noteq> None), (''--ip-range'', ec_ip_range a \<noteq> [])]"
| "missing_parameter External_list = None"
| "missing_parameter (External_delete arg) = first_missing [(''name'', arg \<noteq> None)]"
| "missing_parameter (External_update a) = first_missing [(''name'', eu_name a \<noteq> None)]"
| "missing_parameter (Direct_create a) =
     first_missing [(''name'', dc_name a \<noteq> None), (''--parent'', dc_parent a \<noteq> None)]"
| "missing_parameter Direct_list = None"
| "missing_parameter (Direct_delete a) = first_missing [(''name'', del_name a \<noteq> None)]"
| "missing_parameter (Isolated_create a) =
     first_missing
       [(''name'', ic_name a \<noteq> None), (''--gateway'', ic_gateway a \<noteq> None),
        (''--netmask'', ic_netmask a \<noteq> None)]"
| "missing_parameter Isolated_list = None"
| "missing_parameter (Isolated_delete a) = first_missing [(''name'', del_name a \<noteq> None)]"

subsection \<open>The runs a handler and a command can take\<close>

text \<open>
  Every handler has the same skeleton, so its runs are of four kinds: the session is
  not restored; the remote call raises; the remote call returns a result the handler
  cannot read; everything returns and the handler prints. A command adds what click
  does first: it rejects the command line, or asks and is told no, or calls the
  handler (after asking, for the two org vdc deletes).
\<close>

inductive handler_run :: "world \<Rightarrow> outcome \<Rightarrow> bool" for w :: world where
  session_failed:
    "restore_session w b = Inl e \<Longrightarrow> handler_run w (stderr e [Restore b])"
| remote_failed:
    "restore_session w b = Inr ctx \<Longrightarrow> sdk w p m = Inl e \<Longrightarrow>
     handler_run w (stderr e [Restore b, Remote p m])"
| result_unreadable:
    "restore_session w b = Inr ctx \<Longrightarrow> sdk w p m = Inr r \<Longrightarrow>
     handler_run w (stderr e [Restore b, Remote p m])"
| succeeded:
    "restore_session w b = Inr ctx \<Longrightarrow> sdk w p m = Inr r \<Longrightarrow> outs \<noteq> [] \<Longrightarrow>
     handler_run w (returned ([Restore b, Remote p m] @ map Stdout outs))"

inductive command_run :: "world \<Rightarrow> outcome \<Rightarrow> bool" for w :: world where
  rejected: "command_run w (usage_error (ValidationError param))"
| declined:
    "\<not> confirm_answer w \<Longrightarrow> command_run w \<lparr>exit_status = 0, events = [Prompt q]\<rparr>"
| handled: "handler_run w out \<Longrightarrow> command_run w out"
| confirmed:
    "confirm_answer w \<Longrightarrow> handler_run w out \<Longrightarrow>
     command_run w (preceded_by [Prompt q] out)"

subsection \<open>Sample environments\<close>

text \<open>
  A server that accepts every request (a create or update answers with an entity
  holding one queued task, a delete with a task, a list with two networks), and one
  that rejects every request.
\<close>

fun accepting_sdk :: "proxy \<Rightarrow> sdk_method \<Rightarrow> error + pyobj" where
  "accepting_sdk p (Create_directly_connected_vdc_network r) = Inr (Entity [''task-1''])"
| "accepting_sdk p (Create_isolated_vdc_network r) = Inr (Entity [''task-1''])"
| "accepting_sdk p (Create_external_network r) = Inr (Entity [''task-1''])"
| "accepting_sdk p (Update_external_network n nn nd) = Inr (Entity [''task-2''])"
| "accepting_sdk p (Delete_direct_orgvdc_network n f) = Inr (Task ''task-3'')"
| "accepting_sdk p (Delete_isolated_orgvdc_network n f) = Inr (Task ''task-3'')"
| "accepting_sdk p (Delete_external_network n) = Inr (Task ''task-3'')"
| "accepting_sdk p List_external_networks =
     Inr (Elements [[(''name'', ''net-b''), (''id'', ''7'')], [(''name'', ''net-a'')]])"
| "accepting_sdk p List_orgvdc_direct_networks =
     Inr (Elements [[(''name'', ''net-b''), (''id'', ''7'')], [(''name'', ''net-a'')]])"
| "accepting_sdk p List_orgvdc_isolated_networks =
     Inr (Elements [[(''name'', ''net-b''), (''id'', ''7'')], [(''name'', ''net-a'')]])"

definition rejecting_sdk :: "proxy \<Rightarrow> sdk_method \<Rightarrow> error + pyobj" where
  "rejecting_sdk p m = Inl (RemoteRejected ''not found'')"

definition empty_sdk :: "proxy \<Rightarrow> sdk_method \<Rightarrow> error + pyobj" where
  \<comment> \<open>A server with no network to list.\<close>
  "empty_sdk p m = Inr (Elements [])"

definition logged_in :: session_context where
  "logged_in = \<lparr>client = ''token'', vdc_href = Some ''vdc-1''\<rparr>"

definition no_vdc :: session_context where
  "no_vdc = \<lparr>client = ''token'', vdc_href = None\<rparr>"

definition sample_world ::
  "session_context option \<Rightarrow> (proxy \<Rightarrow> sdk_method \<Rightarrow> error + pyobj) \<Rightarrow> bool \<Rightarrow> world" where
  "sample_world session server answer =
     \<lparr>cached_session = session, sdk = server, confirm_answer = answer\<rparr>"

definition sample_delete :: "bool \<Rightarrow> bool \<Rightarrow> delete_argv" where
  "sample_delete force yes = \<lparr>del_name = Some ''net1'', del_force = force, del_yes = yes\<rparr>"

definition sample_direct_create :: direct_create_argv where
  "sample_direct_create =
     \<lparr>dc_name = Some ''direct-net1'', dc_parent = Some ''ext-net1'',
      dc_description = None, dc_shared = None\<rparr>"

definition sample_isolated_create :: isolated_create_argv where
  "sample_isolated_create =
     \<lparr>ic_name = Some ''isolated-net1'', ic_gateway = Some ''192.168.1.1'',
      ic_netmask = Some ''255.255.255.0'', ic_description = None,
      ic_dns1 = Some ''8.8.8.8'', ic_dns2 = None, ic_dns_suffix = Some ''example.com'',
      ic_ip_range_start = Some ''192.168.1.100'', ic_ip_range_end = Some ''192.168.1.199'',
      ic_dhcp_enabled = Some True, ic_default_lease_time = Some ''3600'',
      ic_max_lease_time = Some ''7200'', ic_dhcp_ip_range_start = Some ''192.168.1.100'',
      ic_dhcp_ip_range_end = Some ''192.168.1.199'', ic_shared = None\<rparr>"

definition sample_external_create :: "string list \<Rightarrow> string list \<Rightarrow> external_create_argv" where
  "sample_external_create port_groups ip_ranges =
     \<lparr>ec_name = Some ''external-net1'', ec_vc_name = Some ''vc1'',
      ec_port_group = port_groups, ec_gateway = Some ''192.168.1.1'',
      ec_netmask = Some ''255.255.255.0'', ec_ip_range = ip_ranges,
      ec_description = Some ''External network'', ec_dns1 = Some ''8.8.8.8'',
      ec_dns2 = Some ''8.8.8.9'', ec_dns_suffix = Some ''example.com''\<rparr>"

definition sample_update :: "string option \<Rightarrow> string option \<Rightarrow> external_update_argv" where
  "sample_update new_name new_description =
     \<lparr>eu_name = Some ''external-net1'', eu_new_name = new_name,
      eu_new_description = new_description\<rparr>"

section \<open>Properties\<close>

subsection \<open>The listing loop\<close>

lemma collect_names_acc:
  "collect_names nets acc = acc @ map (\<lambda>net. [(''name'', map_of net ''name'')]) nets"
  by (induction nets arbitrary: acc) simp_all

subsection \<open>Every run of a command is one of the runs above\<close>

lemma run_create_direct: "handler_run w (create_direct_network w n p d s)"
  unfolding create_direct_network_def Let_def stdout_def
  by (auto split: sum.splits intro: handler_run.intros
      intro: succeeded [where outs = "[x]" for x, simplified])

lemma run_create_isolated:
  "handler_run w (create_isolated_network w n g nm d d1 d2 ds rs re dh lt mt ds' de sh)"
  unfolding create_isolated_network_def Let_def stdout_def
  by (auto split: sum.splits intro: handler_run.intros
      intro: succeeded [where outs = "[x]" for x, simplified])

lemma run_create_external:
  "handler_run w (create_external_network w n vc pg g nm ir d d1 d2 ds)"
  unfolding create_external_network_def Let_def stdout_def
  by (auto split: sum.splits intro: handler_run.intros
      intro: succeeded [where outs = "[x, y]" for x y, simplified])

lemma run_list_external: "handler_run w (list_external_networks w)"
  unfolding list_external_networks_def Let_def stdout_def
  by (auto split: sum.splits intro: handler_run.intros
      intro: succeeded [where outs = "[x]" for x, simplified])

lemma run_list_direct: "handler_run w (list_direct_networks w)"
  unfolding list_direct_networks_def Let_def stdout_def
  by (auto split: sum.splits intro: handler_run.intros
      intro: succeeded [where outs = "[x]" for x, simplified])

lemma run_list_isolated: "handler_run w (list_isolated_networks w)"
  unfolding list_isolated_networks_def Let_def stdout_def
  by (auto split: sum.splits intro: handler_run.intros
      intro: succeeded [where outs = "[x]" for x, simplified])

lemma run_delete_direct: "handler_run w (delete_direct_networks w n f)"
  unfolding delete_direct_networks_def Let_def stdout_def
  by (auto split: sum.splits intro: handler_run.intros
      intro: succeeded [where outs = "[x]" for x, simplified])

lemma run_delete_isolated: "handler_run w (delete_isolated_networks w n f)"
  unfolding delete_isolated_networks_def Let_def stdout_def
  by (auto split: sum.splits intro: handler_run.intros
      intro: succeeded [where outs = "[x]" for x, simplified])

lemma run_delete_external: "handler_run w (delete_external_network w n)"
  unfolding delete_external_network_def Let_def stdout_def
  by (auto split: sum.splits intro: handler_run.intros
      intro: succeeded [where outs = "[x, y]" for x y, simplified])

lemma run_update_external: "handler_run w (update_external_network w n nn nd)"
  unfolding update_external_network_def Let_def stdout_def
  by (auto split: sum.splits intro: handler_run.intros
      intro: succeeded [where outs = "[x, y]" for x y, simplified])

lemma run_orgvdc_delete:
  assumes "handler_run w out"
  shows "command_run w
     (case prompted_flag w q given of
        (asked, yes) \<Rightarrow>
          (case abort_if_false yes of
             Some aborted \<Rightarrow> preceded_by asked aborted
           | None \<Rightarrow> preceded_by asked out))"
proof (cases given)
  case True
  have "preceded_by [] out = out" by (simp add: preceded_by_def)
  with True assms show ?thesis
    by (simp add: prompted_flag_def abort_if_false_def handled)
next
  case False
  show ?thesis
  proof (cases "confirm_answer w")
    case True
    with False assms show ?thesis
      by (simp add: prompted_flag_def abort_if_false_def confirmed)
  next
    case no: False
    with False show ?thesis
      by (simp add: prompted_flag_def abort_if_false_def preceded_by_def declined)
  qed
qed


lemma network_run: "command_run w (network w cmd)"
proof (cases cmd)
  case (External_create a)
  then show ?thesis
    by (auto simp: external_create_def required_def required_multiple_def
        split: option.splits intro: rejected handled run_create_external)
next
  case External_list
  then show ?thesis by (simp add: external_list_def handled run_list_external)
next
  case (External_delete a)
  then show ?thesis
    by (auto simp: external_delete_def required_def
        split: option.splits intro: rejected handled run_delete_external)
next
  case (External_update a)
  then show ?thesis
    by (auto simp: external_update_def required_def
        split: option.splits intro: rejected handled run_update_external)
next
  case (Direct_create a)
  then show ?thesis
    by (auto simp: direct_create_def required_def
        split: option.splits intro: rejected handled run_create_direct)
next
  case Direct_list
  then show ?thesis by (simp add: direct_list_def handled run_list_direct)
next
  case (Direct_delete a)
  then show ?thesis
    by (auto simp: direct_delete_def required_def
        split: option.splits intro: rejected run_orgvdc_delete run_delete_direct)
next
  case (Isolated_create a)
  then show ?thesis
    by (auto simp: isolated_create_def required_def
        split: option.splits intro: rejected handled run_create_isolated)
next
  case Isolated_list
  then show ?thesis by (simp add: isolated_list_def handled run_list_isolated)
next
  case (Isolated_delete a)
  then show ?thesis
    by (auto simp: isolated_delete_def required_def
        split: option.splits intro: rejected run_orgvdc_delete run_delete_isolated)
qed


subsection \<open>What every run of a handler satisfies\<close>

lemmas stream_defs =
  prompts_def restorations_def remote_calls_def output_stream_def error_stream_def

lemmas ending_defs = stderr_def returned_def usage_error_def preceded_by_def

lemma handler_run_status:
  "handler_run w out \<Longrightarrow> (exit_status out = 0) = (error_stream out = [])"
  by (induction rule: handler_run.induct) (simp_all add: stream_defs ending_defs)

lemma handler_run_one_message:
  "handler_run w out \<Longrightarrow> length (error_stream out) \<le> 1"
  by (induction rule: handler_run.induct) (simp_all add: stream_defs ending_defs)

lemma handler_run_silent_failure:
  "handler_run w out \<Longrightarrow> exit_status out \<noteq> 0 \<Longrightarrow> output_stream out = []"
  by (induction rule: handler_run.induct) (simp_all add: stream_defs ending_defs)

lemma handler_run_message_last:
  "handler_run w out \<Longrightarrow> error_stream out = [Stderr e] \<Longrightarrow> last (events out) = Stderr e"
  by (induction rule: handler_run.induct) (simp_all add: stream_defs ending_defs)

lemma handler_run_session_failure:
  "handler_run w out \<Longrightarrow> Restore b \<in> set (events out) \<Longrightarrow> restore_session w b = Inl e \<Longrightarrow>
   exit_status out \<noteq> 0 \<and> error_stream out = [Stderr e] \<and> output_stream out = [] \<and>
   remote_calls out = []"
  by (induction rule: handler_run.induct) (auto simp: stream_defs ending_defs)

lemma handler_run_remote_failure:
  "handler_run w out \<Longrightarrow> Remote p m \<in> set (events out) \<Longrightarrow> sdk w p m = Inl e \<Longrightarrow>
   exit_status out \<noteq> 0 \<and> error_stream out = [Stderr e] \<and> output_stream out = []"
  by (induction rule: handler_run.induct) (auto simp: stream_defs ending_defs)

lemma handler_run_one_call:
  "handler_run w out \<Longrightarrow> length (remote_calls out) \<le> 1"
  by (induction rule: handler_run.induct) (simp_all add: stream_defs ending_defs)

lemma filter_map_Stdout [simp]:
  "filter is_remote (map Stdout outs) = []" "filter is_stderr (map Stdout outs) = []"
  "filter is_prompt (map Stdout outs) = []" "filter is_restore (map Stdout outs) = []"
  "filter is_stdout (map Stdout outs) = map Stdout outs"
  by (induction outs) simp_all

lemma handler_run_output_after_call:
  assumes "handler_run w out" and "output_stream out \<noteq> []"
  shows "\<exists>b p m r outs. sdk w p m = Inr r \<and>
           events out = [Restore b, Remote p m] @ map Stdout outs"
  using assms
proof (induction rule: handler_run.induct)
  case (succeeded b ctx p m r outs)
  then show ?case by (auto simp: returned_def)
qed (simp_all add: stream_defs ending_defs)


subsection \<open>What every run of a command satisfies\<close>

lemma asked_first [simp]:
  "exit_status (preceded_by [Prompt q] out) = exit_status out"
  "events (preceded_by [Prompt q] out) = Prompt q # events out"
  "error_stream (preceded_by [Prompt q] out) = error_stream out"
  "output_stream (preceded_by [Prompt q] out) = output_stream out"
  "remote_calls (preceded_by [Prompt q] out) = remote_calls out"
  "restorations (preceded_by [Prompt q] out) = restorations out"
  "prompts (preceded_by [Prompt q] out) = Prompt q # prompts out"
  by (simp_all add: preceded_by_def stream_defs)

lemma command_run_status:
  "command_run w out \<Longrightarrow> (exit_status out = 0) = (error_stream out = [])"
  by (induction rule: command_run.induct)
     (simp_all add: handler_run_status, simp_all add: stream_defs ending_defs)

lemma command_run_one_message:
  "command_run w out \<Longrightarrow> length (error_stream out) \<le> 1"
proof (induction rule: command_run.induct)
  case (handled out)
  then show ?case by (rule handler_run_one_message)
next
  case (confirmed out q)
  then show ?case using handler_run_one_message [of w out] by simp
qed (simp_all add: stream_defs ending_defs)

lemma command_run_silent_failure:
  "command_run w out \<Longrightarrow> exit_status out \<noteq> 0 \<Longrightarrow> output_stream out = []"
  by (induction rule: command_run.induct)
     (simp_all add: handler_run_silent_failure, simp_all add: stream_defs ending_defs)

lemma command_run_message_last:
  "command_run w out \<Longrightarrow> error_stream out = [Stderr e] \<Longrightarrow> last (events out) = Stderr e"
proof (induction rule: command_run.induct)
  case (confirmed out q)
  then have "last (events out) = Stderr e" by (simp add: handler_run_message_last)
  moreover from confirmed have "events out \<noteq> []" by (auto simp: stream_defs)
  ultimately show ?case by simp
qed (simp_all add: handler_run_message_last, simp_all add: stream_defs ending_defs)

lemma command_run_session_failure:
  "command_run w out \<Longrightarrow> Restore b \<in> set (events out) \<Longrightarrow> restore_session w b = Inl e \<Longrightarrow>
   exit_status out \<noteq> 0 \<and> error_stream out = [Stderr e] \<and> output_stream out = [] \<and>
   remote_calls out = []"
proof (induction rule: command_run.induct)
  case (handled out)
  then show ?case by (rule handler_run_session_failure)
next
  case (confirmed out q)
  then show ?case using handler_run_session_failure [of w out b e] by simp
qed (simp_all add: ending_defs)

lemma command_run_remote_failure:
  "command_run w out \<Longrightarrow> Remote p m \<in> set (events out) \<Longrightarrow> sdk w p m = Inl e \<Longrightarrow>
   exit_status out \<noteq> 0 \<and> error_stream out = [Stderr e] \<and> output_stream out = []"
proof (induction rule: command_run.induct)
  case (handled out)
  then show ?case by (rule handler_run_remote_failure)
next
  case (confirmed out q)
  then show ?case using handler_run_remote_failure [of w out p m e] by simp
qed (simp_all add: ending_defs)

lemma command_run_one_call:
  "command_run w out \<Longrightarrow> length (remote_calls out) \<le> 1"
proof (induction rule: command_run.induct)
  case (handled out)
  then show ?case by (rule handler_run_one_call)
next
  case (confirmed out q)
  then show ?case using handler_run_one_call [of w out] by simp
qed (simp_all add: stream_defs ending_defs)

lemma command_run_output_after_call:
  assumes "command_run w out" and "output_stream out \<noteq> []"
  shows "\<exists>pre p m r outs. sdk w p m = Inr r \<and>
           events out = pre @ [Remote p m] @ map Stdout outs \<and>
           filter is_remote pre = [] \<and> filter is_stdout pre = [] \<and> filter is_stderr pre = []"
  using assms
proof (induction rule: command_run.induct)
  case (handled out)
  from handler_run_output_after_call [OF handled(1) handled(2)]
  obtain b p m r outs where
    "sdk w p m = Inr r" "events out = [Restore b, Remote p m] @ map Stdout outs"
    by blast
  then have "sdk w p m = Inr r \<and> events out = [Restore b] @ [Remote p m] @ map Stdout outs \<and>
      filter is_remote [Restore b] = [] \<and> filter is_stdout [Restore b] = [] \<and>
      filter is_stderr [Restore b] = []"
    by simp
  then show ?case by blast
next
  case (confirmed out q)
  then have "output_stream out \<noteq> []" by simp
  from handler_run_output_after_call [OF confirmed(2) this]
  obtain b p m r outs where
    "sdk w p m = Inr r" "events out = [Restore b, Remote p m] @ map Stdout outs"
    by blast
  then have "sdk w p m = Inr r \<and>
      events (preceded_by [Prompt q] out) =
        [Prompt q, Restore b] @ [Remote p m] @ map Stdout outs \<and>
      filter is_remote [Prompt q, Restore b] = [] \<and>
      filter is_stdout [Prompt q, Restore b] = [] \<and>
      filter is_stderr [Prompt q, Restore b] = []"
    by simp
  then show ?case by blast
qed (simp_all add: stream_defs ending_defs)


subsection \<open>A missing required parameter\<close>

lemma missing_parameter_rejected:
  "missing_parameter cmd = Some param \<Longrightarrow> network w cmd = usage_error (ValidationError param)"
proof (cases cmd)
  case (External_create a)
  assume "missing_parameter cmd = Some param"
  with External_create show ?thesis
    by (simp add: external_create_def required_def required_multiple_def
        split: option.splits if_splits)
next
  case (External_delete a)
  assume "missing_parameter cmd = Some param"
  with External_delete show ?thesis
    by (simp add: external_delete_def required_def split: option.splits if_splits)
next
  case (External_update a)
  assume "missing_parameter cmd = Some param"
  with External_update show ?thesis
    by (simp add: external_update_def required_def split: option.splits if_splits)
next
  case (Direct_create a)
  assume "missing_parameter cmd = Some param"
  with Direct_create show ?thesis
    by (simp add: direct_create_def required_def split: option.splits if_splits)
next
  case (Direct_delete a)
  assume "missing_parameter cmd = Some param"
  with Direct_delete show ?thesis
    by (simp add: direct_delete_def required_def split: option.splits if_splits)
next
  case (Isolated_create a)
  assume "missing_parameter cmd = Some param"
  with Isolated_create show ?thesis
    by (simp add: isolated_create_def required_def split: option.splits if_splits)
next
  case (Isolated_delete a)
  assume "missing_parameter cmd = Some param"
  with Isolated_delete show ?thesis
    by (simp add: isolated_delete_def required_def split: option.splits if_splits)
qed simp_all


subsection \<open>Runs in the sample environments\<close>

lemmas handler_defs =
  create_direct_network_def create_isolated_network_def create_external_network_def
  list_external_networks_def list_direct_networks_def list_isolated_networks_def
  delete_direct_networks_def delete_isolated_networks_def delete_external_network_def
  update_external_network_def

lemmas command_defs =
  direct_create_def isolated_create_def external_create_def external_list_def
  direct_list_def isolated_list_def direct_delete_def isolated_delete_def
  external_delete_def external_update_def

lemmas click_defs =
  required_def required_multiple_def or_default_def prompted_flag_def abort_if_false_def

lemmas sample_defs =
  sample_world_def sample_delete_def sample_direct_create_def sample_isolated_create_def
  sample_external_create_def sample_update_def logged_in_def no_vdc_def rejecting_sdk_def
  empty_sdk_def


lemmas run_defs =
  command_defs handler_defs click_defs sample_defs restore_session_def ending_defs
  stdout_def first_task_def iterate_def

lemma sample_no_session:
  "network (sample_world None accepting_sdk True) External_list =
   \<lparr>exit_status = 1, events = [Restore False, Stderr AuthFailure]\<rparr>"
  by (simp add: run_defs)

lemma sample_rejected_create:
  "network (sample_world (Some logged_in) rejecting_sdk True)
     (Direct_create sample_direct_create) =
   \<lparr>exit_status = 1,
    events =
      [Restore True,
       Remote (VDC ''token'' (Some ''vdc-1''))
         (Create_directly_connected_vdc_network
            \<lparr>dr_network_name = ''direct-net1'', dr_parent_network_name = ''ext-net1'',
             dr_description = Some [], dr_is_shared = False\<rparr>),
       Stderr (RemoteRejected ''not found'')]\<rparr>"
  by (simp add: run_defs)

lemma sample_external_list:
  "network (sample_world (Some no_vdc) accepting_sdk True) External_list =
   \<lparr>exit_status = 0,
    events =
      [Restore False, Remote (Platform ''token'') List_external_networks,
       Stdout (Dicts [[(''name'', Some ''net-b'')], [(''name'', Some ''net-a'')]])]\<rparr>"
  by (simp add: run_defs)

subsection \<open>The remote call of a handler once the session is restored\<close>

lemma calls_create_direct:
  "restore_session w True = Inr ctx \<Longrightarrow>
   remote_calls (create_direct_network w name parent description is_shared) =
     [Remote (VDC (client ctx) (vdc_href ctx))
        (Create_directly_connected_vdc_network
           \<lparr>dr_network_name = name, dr_parent_network_name = parent,
            dr_description = description, dr_is_shared = is_shared\<rparr>)]"
  by (simp add: create_direct_network_def Let_def remote_calls_def ending_defs stdout_def
      split: sum.splits)

lemma calls_create_isolated:
  "restore_session w True = Inr ctx \<Longrightarrow>
   remote_calls (create_isolated_network w name gateway_ip netmask description primary_dns_ip
       secondary_dns_ip dns_suffix ip_range_start ip_range_end is_dhcp_enabled
       default_lease_time max_lease_time dhcp_ip_range_start dhcp_ip_range_end is_shared) =
     [Remote (VDC (client ctx) (vdc_href ctx))
        (Create_isolated_vdc_network
           \<lparr>ir_network_name = name, ir_gateway_ip = gateway_ip, ir_netmask = netmask,
            ir_description = description, ir_primary_dns_ip = primary_dns_ip,
            ir_secondary_dns_ip = secondary_dns_ip, ir_dns_suffix = dns_suffix,
            ir_ip_range_start = ip_range_start, ir_ip_range_end = ip_range_end,
            ir_is_dhcp_enabled = is_dhcp_enabled,
            ir_default_lease_time = default_lease_time, ir_max_lease_time = max_lease_time,
            ir_dhcp_ip_range_start = dhcp_ip_range_start,
            ir_dhcp_ip_range_end = dhcp_ip_range_end, ir_is_shared = is_shared\<rparr>)]"
  by (simp add: create_isolated_network_def Let_def remote_calls_def ending_defs stdout_def
      split: sum.splits)

lemma calls_create_external:
  "restore_session w False = Inr ctx \<Longrightarrow>
   remote_calls (create_external_network w name vc_name port_group gateway_ip netmask
       ip_range description primary_dns_ip secondary_dns_ip dns_suffix) =
     [Remote (Platform (client ctx))
        (Create_external_network
           \<lparr>er_name = name, er_vim_server_name = vc_name, er_port_group_names = port_group,
            er_gateway_ip = gateway_ip, er_netmask = netmask, er_ip_ranges = ip_range,
            er_description = description, er_primary_dns_ip = primary_dns_ip,
            er_secondary_dns_ip = secondary_dns_ip, er_dns_suffix = dns_suffix\<rparr>)]"
  by (simp add: create_external_network_def Let_def remote_calls_def ending_defs stdout_def
      split: sum.splits)

lemma calls_delete_direct:
  "restore_session w True = Inr ctx \<Longrightarrow>
   remote_calls (delete_direct_networks w name force) =
     [Remote (VDC (client ctx) (vdc_href ctx)) (Delete_direct_orgvdc_network name force)]"
  by (simp add: delete_direct_networks_def Let_def remote_calls_def ending_defs stdout_def
      split: sum.splits)

lemma calls_delete_isolated:
  "restore_session w True = Inr ctx \<Longrightarrow>
   remote_calls (delete_isolated_networks w name force) =
     [Remote (VDC (client ctx) (vdc_href ctx)) (Delete_isolated_orgvdc_network name force)]"
  by (simp add: delete_isolated_networks_def Let_def remote_calls_def ending_defs stdout_def
      split: sum.splits)

lemma calls_delete_external:
  "restore_session w False = Inr ctx \<Longrightarrow>
   remote_calls (delete_external_network w name) =
     [Remote (Platform (client ctx)) (Delete_external_network name)]"
  by (simp add: delete_external_network_def Let_def remote_calls_def ending_defs stdout_def
      split: sum.splits)

lemma missing_multiple:
  "ec_port_group a = [] \<or> ec_ip_range a = [] \<Longrightarrow>
   \<exists>param. missing_parameter (External_create a) = Some param"
  by auto

lemma calls_update_external:
  "restore_session w False = Inr ctx \<Longrightarrow>
   remote_calls (update_external_network w name new_name new_description) =
     [Remote (Platform (client ctx)) (Update_external_network name new_name new_description)]"
  by (simp add: update_external_network_def Let_def remote_calls_def ending_defs stdout_def
      split: sum.splits)

subsection \<open>Runs in which the remote call returns\<close>

lemma run_update_accepted:
  "restore_session w False = Inr ctx \<Longrightarrow>
   sdk w (Platform (client ctx)) (Update_external_network name new_name new_description) =
     Inr (Entity (t # ts)) \<Longrightarrow>
   update_external_network w name new_name new_description =
     \<lparr>exit_status = 0,
      events =
        [Restore False,
         Remote (Platform (client ctx)) (Update_external_network name new_name new_description),
         Stdout (Task t),
         Stdout (Str ''External network updated successfully.'')]\<rparr>"
  by (simp add: update_external_network_def Let_def ending_defs stdout_def first_task_def)

lemma run_list_external_returned:
  "restore_session w False = Inr ctx \<Longrightarrow>
   sdk w (Platform (client ctx)) List_external_networks = Inr (Elements nets) \<Longrightarrow>
   list_external_networks w =
     \<lparr>exit_status = 0,
      events =
        [Restore False, Remote (Platform (client ctx)) List_external_networks,
         Stdout (Dicts (map (\<lambda>net. [(''name'', map_of net ''name'')]) nets))]\<rparr>"
  by (simp add: list_external_networks_def Let_def ending_defs stdout_def iterate_def
      collect_names_acc)

lemma run_list_direct_returned:
  "restore_session w True = Inr ctx \<Longrightarrow>
   sdk w (VDC (client ctx) (vdc_href ctx)) List_orgvdc_direct_networks = Inr (Elements nets) \<Longrightarrow>
   list_direct_networks w =
     \<lparr>exit_status = 0,
      events =
        [Restore True, Remote (VDC (client ctx) (vdc_href ctx)) List_orgvdc_direct_networks,
         Stdout (Dicts (map (\<lambda>net. [(''name'', map_of net ''name'')]) nets))]\<rparr>"
  by (simp add: list_direct_networks_def Let_def ending_defs stdout_def iterate_def
      collect_names_acc)

lemma run_list_isolated_returned:
  "restore_session w True = Inr ctx \<Longrightarrow>
   sdk w (VDC (client ctx) (vdc_href ctx)) List_orgvdc_isolated_networks = Inr (Elements nets) \<Longrightarrow>
   list_isolated_networks w =
     \<lparr>exit_status = 0,
      events =
        [Restore True, Remote (VDC (client ctx) (vdc_href ctx)) List_orgvdc_isolated_networks,
         Stdout (Dicts (map (\<lambda>net. [(''name'', map_of net ''name'')]) nets))]\<rparr>"
  by (simp add: list_isolated_networks_def Let_def ending_defs stdout_def iterate_def
      collect_names_acc)

subsection \<open>No vdc selected, and the two org vdc deletes\<close>

lemma no_vdc_restore:
  "cached_session w = Some ctx \<Longrightarrow> vdc_href ctx = None \<Longrightarrow>
   restore_session w True = Inl NoVdcSelected"
  by (simp add: restore_session_def)

lemma handler_run_no_prompt: "handler_run w out \<Longrightarrow> prompts out = []"
  by (induction rule: handler_run.induct) (simp_all add: stream_defs ending_defs)

lemma direct_delete_named:
  "del_name a = Some name \<Longrightarrow>
   direct_delete w a =
     (if del_yes a then delete_direct_networks w name (del_force a)
      else if confirm_answer w
        then preceded_by [Prompt ''Are you sure you want to delete the OrgVdc Network?'']
               (delete_direct_networks w name (del_force a))
        else \<lparr>exit_status = 0,
               events = [Prompt ''Are you sure you want to delete the OrgVdc Network?'']\<rparr>)"
  by (simp add: direct_delete_def required_def prompted_flag_def abort_if_false_def
      preceded_by_def)

lemma isolated_delete_named:
  "del_name a = Some name \<Longrightarrow>
   isolated_delete w a =
     (if del_yes a then delete_isolated_networks w name (del_force a)
      else if confirm_answer w
        then preceded_by [Prompt ''Are you sure you want to delete the OrgVdc Network?'']
               (delete_isolated_networks w name (del_force a))
        else \<lparr>exit_status = 0,
               events = [Prompt ''Are you sure you want to delete the OrgVdc Network?'']\<rparr>)"
  by (simp add: isolated_delete_def required_def prompted_flag_def abort_if_false_def
      preceded_by_def)

lemma no_vdc_handlers:
  assumes "cached_session w = Some ctx" and "vdc_href ctx = None"
  shows "create_direct_network w name parent description is_shared =
           \<lparr>exit_status = 1, events = [Restore True, Stderr NoVdcSelected]\<rparr>"
    and "create_isolated_network w name gateway_ip netmask description primary_dns_ip
           secondary_dns_ip dns_suffix ip_range_start ip_range_end is_dhcp_enabled
           default_lease_time max_lease_time dhcp_ip_range_start dhcp_ip_range_end is_shared =
           \<lparr>exit_status = 1, events = [Restore True, Stderr NoVdcSelected]\<rparr>"
    and "list_direct_networks w =
           \<lparr>exit_status = 1, events = [Restore True, Stderr NoVdcSelected]\<rparr>"
    and "list_isolated_networks w =
           \<lparr>exit_status = 1, events = [Restore True, Stderr NoVdcSelected]\<rparr>"
    and "delete_direct_networks w name force =
           \<lparr>exit_status = 1, events = [Restore True, Stderr NoVdcSelected]\<rparr>"
    and "delete_isolated_networks w name force =
           \<lparr>exit_status = 1, events = [Restore True, Stderr NoVdcSelected]\<rparr>"
  using no_vdc_restore [OF assms]
  by (simp_all add: create_direct_network_def create_isolated_network_def
      list_direct_networks_def list_isolated_networks_def delete_direct_networks_def
      delete_isolated_networks_def stderr_def)

lemma no_vdc_commands_silent:
  assumes "cached_session w = Some ctx" and "vdc_href ctx = None"
  shows "remote_calls (direct_create w dc) = []"
    and "remote_calls (isolated_create w ic) = []"
    and "remote_calls (direct_list w) = []"
    and "remote_calls (isolated_list w) = []"
    and "remote_calls (direct_delete w da) = []"
    and "remote_calls (isolated_delete w da) = []"
proof -
  note h = no_vdc_handlers [OF assms]
  show "remote_calls (direct_create w dc) = []"
    by (simp add: direct_create_def required_def h usage_error_def remote_calls_def
        split: option.splits)
  show "remote_calls (isolated_create w ic) = []"
    by (simp add: isolated_create_def required_def h usage_error_def remote_calls_def
        split: option.splits)
  show "remote_calls (direct_list w) = []"
    by (simp add: direct_list_def h remote_calls_def)
  show "remote_calls (isolated_list w) = []"
    by (simp add: isolated_list_def h remote_calls_def)
  show "remote_calls (direct_delete w da) = []"
  proof (cases "del_name da")
    case None
    then show ?thesis
      by (simp add: direct_delete_def required_def usage_error_def remote_calls_def)
  next
    case (Some name)
    then show ?thesis
      by (simp add: direct_delete_named h remote_calls_def preceded_by_def)
  qed
  show "remote_calls (isolated_delete w da) = []"
  proof (cases "del_name da")
    case None
    then show ?thesis
      by (simp add: isolated_delete_def required_def usage_error_def remote_calls_def)
  next
    case (Some name)
    then show ?thesis
      by (simp add: isolated_delete_named h remote_calls_def preceded_by_def)
  qed
qed

section \<open>The claims\<close>

subsection \<open>Failures\<close>

text \<open>
  Claim C7. Whatever fails while a command runs, the invocation ends with exactly one
  message on the error stream, written last, and a non-zero exit status; nothing
  escapes the command. A missing required parameter is rejected by click before the
  handler is called (one message, status 2); a failure of the session restoration or
  of the remote call is caught by the handler's \<^verbatim>\<open>except\<close> clause and given to
  \<^verbatim>\<open>stderr\<close>. The exit status is 0 exactly when nothing was written to the error
  stream, so a run in which every step returns exits with status 0.
\<close>

theorem failure_ends_with_one_message:
  "(exit_status (network w cmd) = 0) = (error_stream (network w cmd) = []) \<and>
   length (error_stream (network w cmd)) \<le> 1 \<and>
   (\<forall>e. error_stream (network w cmd) = [Stderr e] \<longrightarrow>
      last (events (network w cmd)) = Stderr e) \<and>
   (\<forall>param. missing_parameter cmd = Some param \<longrightarrow>
      exit_status (network w cmd) \<noteq> 0 \<and>
      events (network w cmd) = [Stderr (ValidationError param)]) \<and>
   (\<forall>b e. Restore b \<in> set (events (network w cmd)) \<and> restore_session w b = Inl e \<longrightarrow>
      exit_status (network w cmd) \<noteq> 0 \<and> error_stream (network w cmd) = [Stderr e]) \<and>
   (\<forall>p m e. Remote p m \<in> set (events (network w cmd)) \<and> sdk w p m = Inl e \<longrightarrow>
      exit_status (network w cmd) \<noteq> 0 \<and> error_stream (network w cmd) = [Stderr e])"
proof -
  note run = network_run [of w cmd]
  have "(exit_status (network w cmd) = 0) = (error_stream (network w cmd) = [])"
    using run by (rule command_run_status)
  moreover have "length (error_stream (network w cmd)) \<le> 1"
    using run by (rule command_run_one_message)
  moreover have "\<forall>e. error_stream (network w cmd) = [Stderr e] \<longrightarrow>
      last (events (network w cmd)) = Stderr e"
    using run by (simp add: command_run_message_last)
  moreover have "\<forall>param. missing_parameter cmd = Some param \<longrightarrow>
      exit_status (network w cmd) \<noteq> 0 \<and>
      events (network w cmd) = [Stderr (ValidationError param)]"
    by (simp add: missing_parameter_rejected usage_error_def)
  moreover have "\<forall>b e. Restore b \<in> set (events (network w cmd)) \<and>
      restore_session w b = Inl e \<longrightarrow>
      exit_status (network w cmd) \<noteq> 0 \<and> error_stream (network w cmd) = [Stderr e]"
    using command_run_session_failure [OF run] by blast
  moreover have "\<forall>p m e. Remote p m \<in> set (events (network w cmd)) \<and> sdk w p m = Inl e \<longrightarrow>
      exit_status (network w cmd) \<noteq> 0 \<and> error_stream (network w cmd) = [Stderr e]"
    using command_run_remote_failure [OF run] by blast
  ultimately show ?thesis by blast
qed

theorem failure_ends_with_one_message_witness:
  "missing_parameter (External_create (sample_external_create [''pg1'', ''pg2''] [])) =
     Some ''--ip-range'' \<and>
   exit_status (network (sample_world (Some logged_in) accepting_sdk True)
     (External_create (sample_external_create [''pg1'', ''pg2''] []))) \<noteq> 0 \<and>
   events (network (sample_world (Some logged_in) accepting_sdk True)
     (External_create (sample_external_create [''pg1'', ''pg2''] []))) =
     [Stderr (ValidationError ''--ip-range'')] \<and>
   restore_session (sample_world None accepting_sdk True) False = Inl AuthFailure \<and>
   exit_status (network (sample_world None accepting_sdk True) External_list) \<noteq> 0 \<and>
   error_stream (network (sample_world None accepting_sdk True) External_list) =
     [Stderr AuthFailure] \<and>
   last (events (network (sample_world None accepting_sdk True) External_list)) =
     Stderr AuthFailure \<and>
   exit_status (network (sample_world (Some logged_in) rejecting_sdk True)
     (Direct_create sample_direct_create)) \<noteq> 0 \<and>
   error_stream (network (sample_world (Some logged_in) rejecting_sdk True)
     (Direct_create sample_direct_create)) = [Stderr (RemoteRejected ''not found'')] \<and>
   exit_status (network (sample_world (Some no_vdc) accepting_sdk True) External_list) = 0"
proof -
  let ?w1 = "sample_world (Some logged_in) accepting_sdk True"
  let ?c1 = "External_create (sample_external_create [''pg1'', ''pg2''] [])"
  let ?w2 = "sample_world None accepting_sdk True"
  let ?w3 = "sample_world (Some logged_in) rejecting_sdk True"
  let ?c3 = "Direct_create sample_direct_create"
  let ?p3 = "VDC ''token'' (Some ''vdc-1'')"
  let ?m3 = "Create_directly_connected_vdc_network
            \<lparr>dr_network_name = ''direct-net1'', dr_parent_network_name = ''ext-net1'',
             dr_description = Some [], dr_is_shared = False\<rparr>"
  let ?w4 = "sample_world (Some no_vdc) accepting_sdk True"
  have missing: "missing_parameter ?c1 = Some ''--ip-range''"
    by (simp add: sample_defs)
  have "Restore False \<in> set (events (network ?w2 External_list))"
    unfolding sample_no_session by simp
  moreover have "restore_session ?w2 False = Inl AuthFailure"
    by (simp add: restore_session_def sample_defs)
  ultimately have session: "Restore False \<in> set (events (network ?w2 External_list)) \<and>
      restore_session ?w2 False = Inl AuthFailure"
    by blast
  have "Remote ?p3 ?m3 \<in> set (events (network ?w3 ?c3))"
    unfolding sample_rejected_create by simp
  moreover have "sdk ?w3 ?p3 ?m3 = Inl (RemoteRejected ''not found'')"
    by (simp add: sample_defs)
  ultimately have remote: "Remote ?p3 ?m3 \<in> set (events (network ?w3 ?c3)) \<and>
      sdk ?w3 ?p3 ?m3 = Inl (RemoteRejected ''not found'')"
    by blast
  have quiet: "error_stream (network ?w4 External_list) = []"
    unfolding sample_external_list by (simp add: error_stream_def)
  from failure_ends_with_one_message [of ?w1 ?c1] missing
  have 1: "exit_status (network ?w1 ?c1) \<noteq> 0 \<and>
      events (network ?w1 ?c1) = [Stderr (ValidationError ''--ip-range'')]"
    by blast
  from failure_ends_with_one_message [of ?w2 External_list] session
  have 2: "exit_status (network ?w2 External_list) \<noteq> 0 \<and>
      error_stream (network ?w2 External_list) = [Stderr AuthFailure] \<and>
      last (events (network ?w2 External_list)) = Stderr AuthFailure"
    by blast
  from failure_ends_with_one_message [of ?w3 ?c3] remote
  have 3: "exit_status (network ?w3 ?c3) \<noteq> 0 \<and>
      error_stream (network ?w3 ?c3) = [Stderr (RemoteRejected ''not found'')]"
    by blast
  from failure_ends_with_one_message [of ?w4 External_list] quiet
  have 4: "exit_status (network ?w4 External_list) = 0"
    by blast
  from missing session 1 2 3 4 show ?thesis by blast
qed

text \<open>
  Claim C9. Nothing reaches the output stream unless the remote call has returned: when
  the session restoration or the remote call raises, the output stream stays empty and
  the error stream holds the one message of that failure; and whenever something is
  written to the output stream, the events before the first write hold exactly one
  remote call, which returned, and no error message. An invocation that ends with a
  non-zero exit status has written nothing to the output stream, and no invocation
  issues more than one remote call.
\<close>

theorem output_only_after_call_returned:
  "(\<forall>b e. Restore b \<in> set (events (network w cmd)) \<and> restore_session w b = Inl e \<longrightarrow>
      output_stream (network w cmd) = [] \<and> error_stream (network w cmd) = [Stderr e]) \<and>
   (\<forall>p m e. Remote p m \<in> set (events (network w cmd)) \<and> sdk w p m = Inl e \<longrightarrow>
      output_stream (network w cmd) = [] \<and> error_stream (network w cmd) = [Stderr e]) \<and>
   (output_stream (network w cmd) \<noteq> [] \<longrightarrow>
      (\<exists>pre p m r outs. sdk w p m = Inr r \<and>
         events (network w cmd) = pre @ [Remote p m] @ map Stdout outs \<and>
         filter is_remote pre = [] \<and> filter is_stdout pre = [] \<and> filter is_stderr pre = [])) \<and>
   (exit_status (network w cmd) \<noteq> 0 \<longrightarrow> output_stream (network w cmd) = []) \<and>
   length (remote_calls (network w cmd)) \<le> 1"
proof -
  note run = network_run [of w cmd]
  have "length (remote_calls (network w cmd)) \<le> 1"
    using run by (rule command_run_one_call)
  moreover have "exit_status (network w cmd) \<noteq> 0 \<longrightarrow> output_stream (network w cmd) = []"
    using command_run_silent_failure [OF run] by blast
  moreover have "\<forall>b e. Restore b \<in> set (events (network w cmd)) \<and> restore_session w b = Inl e \<longrightarrow>
      output_stream (network w cmd) = [] \<and> error_stream (network w cmd) = [Stderr e]"
    using command_run_session_failure [OF run] by blast
  moreover have "\<forall>p m e. Remote p m \<in> set (events (network w cmd)) \<and> sdk w p m = Inl e \<longrightarrow>
      output_stream (network w cmd) = [] \<and> error_stream (network w cmd) = [Stderr e]"
    using command_run_remote_failure [OF run] by blast
  moreover have "output_stream (network w cmd) \<noteq> [] \<longrightarrow>
      (\<exists>pre p m r outs. sdk w p m = Inr r \<and>
         events (network w cmd) = pre @ [Remote p m] @ map Stdout outs \<and>
         filter is_remote pre = [] \<and> filter is_stdout pre = [] \<and> filter is_stderr pre = [])"
    using command_run_output_after_call [OF run] by blast
  ultimately show ?thesis by blast
qed

theorem output_only_after_call_returned_witness:
  "restore_session (sample_world None accepting_sdk True) False = Inl AuthFailure \<and>
   output_stream (network (sample_world None accepting_sdk True) External_list) = [] \<and>
   error_stream (network (sample_world None accepting_sdk True) External_list) =
     [Stderr AuthFailure] \<and>
   output_stream (network (sample_world (Some logged_in) rejecting_sdk True)
     (Direct_create sample_direct_create)) = [] \<and>
   error_stream (network (sample_world (Some logged_in) rejecting_sdk True)
     (Direct_create sample_direct_create)) = [Stderr (RemoteRejected ''not found'')] \<and>
   (\<exists>pre p m r outs.
      sdk (sample_world (Some no_vdc) accepting_sdk True) p m = Inr r \<and>
      events (network (sample_world (Some no_vdc) accepting_sdk True) External_list) =
        pre @ [Remote p m] @ map Stdout outs \<and>
      filter is_remote pre = [] \<and> filter is_stdout pre = [] \<and> filter is_stderr pre = []) \<and>
   exit_status (network (sample_world (Some logged_in) accepting_sdk True)
     (External_create (sample_external_create [''pg1'', ''pg2''] []))) \<noteq> 0 \<and>
   output_stream (network (sample_world (Some logged_in) accepting_sdk True)
     (External_create (sample_external_create [''pg1'', ''pg2''] []))) = [] \<and>
   length (remote_calls (network (sample_world (Some no_vdc) accepting_sdk True)
     External_list)) \<le> 1"
proof -
  let ?w1 = "sample_world (Some logged_in) accepting_sdk True"
  let ?c1 = "External_create (sample_external_create [''pg1'', ''pg2''] [])"
  let ?w2 = "sample_world None accepting_sdk True"
  let ?w3 = "sample_world (Some logged_in) rejecting_sdk True"
  let ?c3 = "Direct_create sample_direct_create"
  let ?p3 = "VDC ''token'' (Some ''vdc-1'')"
  let ?m3 = "Create_directly_connected_vdc_network
            \<lparr>dr_network_name = ''direct-net1'', dr_parent_network_name = ''ext-net1'',
             dr_description = Some [], dr_is_shared = False\<rparr>"
  let ?w4 = "sample_world (Some no_vdc) accepting_sdk True"
  have "Restore False \<in> set (events (network ?w2 External_list))"
    unfolding sample_no_session by simp
  moreover have "restore_session ?w2 False = Inl AuthFailure"
    by (simp add: restore_session_def sample_defs)
  ultimately have session: "Restore False \<in> set (events (network ?w2 External_list)) \<and>
      restore_session ?w2 False = Inl AuthFailure"
    by blast
  have "Remote ?p3 ?m3 \<in> set (events (network ?w3 ?c3))"
    unfolding sample_rejected_create by simp
  moreover have "sdk ?w3 ?p3 ?m3 = Inl (RemoteRejected ''not found'')"
    by (simp add: sample_defs)
  ultimately have remote: "Remote ?p3 ?m3 \<in> set (events (network ?w3 ?c3)) \<and>
      sdk ?w3 ?p3 ?m3 = Inl (RemoteRejected ''not found'')"
    by blast
  have printed: "output_stream (network ?w4 External_list) \<noteq> []"
    unfolding sample_external_list by (simp add: output_stream_def)
  from output_only_after_call_returned [of ?w2 External_list] session
  have 1: "output_stream (network ?w2 External_list) = [] \<and>
      error_stream (network ?w2 External_list) = [Stderr AuthFailure]"
    by blast
  from output_only_after_call_returned [of ?w3 ?c3] remote
  have 2: "output_stream (network ?w3 ?c3) = [] \<and>
      error_stream (network ?w3 ?c3) = [Stderr (RemoteRejected ''not found'')]"
    by blast
  from output_only_after_call_returned [of ?w4 External_list] printed
  have 3: "\<exists>pre p m r outs.
      sdk ?w4 p m = Inr r \<and>
      events (network ?w4 External_list) = pre @ [Remote p m] @ map Stdout outs \<and>
      filter is_remote pre = [] \<and> filter is_stdout pre = [] \<and> filter is_stderr pre = []"
    by blast
  have refused: "exit_status (network ?w1 ?c1) \<noteq> 0"
    by (simp add: run_defs)
  from output_only_after_call_returned [of ?w1 ?c1] refused
  have 4: "output_stream (network ?w1 ?c1) = []"
    by blast
  from output_only_after_call_returned [of ?w4 External_list]
  have 5: "length (remote_calls (network ?w4 External_list)) \<le> 1"
    by blast
  from session 1 2 3 refused 4 5 show ?thesis by blast
qed

subsection \<open>Creating networks\<close>

text \<open>
  Claim C3. \<^verbatim>\<open>external create\<close> with no \<^verbatim>\<open>--port-group\<close> or no \<^verbatim>\<open>--ip-range\<close> fails
  with a validation error (one message, non-zero exit status) and issues no remote
  call; whenever \<^verbatim>\<open>external create\<close> issues a remote call, the command line gave at
  least one port group and at least one IP range. Both options are declared
  \<^verbatim>\<open>required=True, multiple=True\<close>.
\<close>

theorem external_create_needs_port_group_and_ip_range:
  "(ec_port_group a = [] \<or> ec_ip_range a = [] \<longrightarrow>
      (\<exists>param. events (external_create w a) = [Stderr (ValidationError param)]) \<and>
      exit_status (external_create w a) \<noteq> 0 \<and>
      remote_calls (external_create w a) = []) \<and>
   (remote_calls (external_create w a) \<noteq> [] \<longrightarrow>
      ec_port_group a \<noteq> [] \<and> ec_ip_range a \<noteq> [])"
proof -
  have rejected: "(\<exists>param. events (external_create w a) = [Stderr (ValidationError param)]) \<and>
      exit_status (external_create w a) \<noteq> 0 \<and> remote_calls (external_create w a) = []"
    if "ec_port_group a = [] \<or> ec_ip_range a = []"
  proof -
    from that obtain param where "missing_parameter (External_create a) = Some param"
      using missing_multiple by blast
    then have "network w (External_create a) = usage_error (ValidationError param)"
      by (rule missing_parameter_rejected)
    then have "external_create w a = \<lparr>exit_status = 2, events = [Stderr (ValidationError param)]\<rparr>"
      by (simp add: usage_error_def)
    then show ?thesis by (simp add: remote_calls_def)
  qed
  then show ?thesis by blast
qed

theorem external_create_needs_port_group_and_ip_range_witness:
  "ec_ip_range (sample_external_create [''pg1'', ''pg2''] []) = [] \<and>
   (\<exists>param. events (external_create (sample_world (Some logged_in) accepting_sdk True)
      (sample_external_create [''pg1'', ''pg2''] [])) = [Stderr (ValidationError param)]) \<and>
   exit_status (external_create (sample_world (Some logged_in) accepting_sdk True)
      (sample_external_create [''pg1'', ''pg2''] [])) \<noteq> 0 \<and>
   remote_calls (external_create (sample_world (Some logged_in) accepting_sdk True)
      (sample_external_create [''pg1'', ''pg2''] [])) = [] \<and>
   ec_port_group (sample_external_create [] [''192.168.1.2-192.168.1.49'']) = [] \<and>
   remote_calls (external_create (sample_world (Some logged_in) accepting_sdk True)
      (sample_external_create [] [''192.168.1.2-192.168.1.49''])) = [] \<and>
   remote_calls (external_create (sample_world (Some logged_in) accepting_sdk True)
      (sample_external_create [''pg1''] [''192.168.1.2-192.168.1.49''])) \<noteq> [] \<and>
   ec_port_group (sample_external_create [''pg1''] [''192.168.1.2-192.168.1.49'']) \<noteq> [] \<and>
   ec_ip_range (sample_external_create [''pg1''] [''192.168.1.2-192.168.1.49'']) \<noteq> []"
proof -
  let ?w = "sample_world (Some logged_in) accepting_sdk True"
  let ?no_range = "sample_external_create [''pg1'', ''pg2''] []"
  let ?no_group = "sample_external_create [] [''192.168.1.2-192.168.1.49'']"
  let ?both = "sample_external_create [''pg1''] [''192.168.1.2-192.168.1.49'']"
  have r: "ec_ip_range ?no_range = []" and g: "ec_port_group ?no_group = []"
    by (simp_all add: sample_external_create_def)
  have called: "remote_calls (external_create ?w ?both) \<noteq> []"
    by (simp add: run_defs remote_calls_def)
  from external_create_needs_port_group_and_ip_range [of ?no_range ?w] r
  have 1: "(\<exists>param. events (external_create ?w ?no_range) = [Stderr (ValidationError param)]) \<and>
      exit_status (external_create ?w ?no_range) \<noteq> 0 \<and>
      remote_calls (external_create ?w ?no_range) = []"
    by blast
  from external_create_needs_port_group_and_ip_range [of ?no_group ?w] g
  have 2: "remote_calls (external_create ?w ?no_group) = []"
    by blast
  from external_create_needs_port_group_and_ip_range [of ?both ?w] called
  have 3: "ec_port_group ?both \<noteq> [] \<and> ec_ip_range ?both \<noteq> []"
    by blast
  from r g called 1 2 3 show ?thesis by blast
qed

text \<open>
  Claim C4. Given the required arguments of a create command and a session that is
  restored (with a vdc selected for direct and isolated create), the command issues
  exactly one remote call, the create call of its kind, and every field of the request
  is the parsed argument of the same name: the values given on the command line, the
  declared default where an option with a default is omitted, None where an option
  without default is omitted. The port groups and the IP ranges are the lists of the
  command line, in the order given.
\<close>

theorem create_issues_one_call_with_the_arguments:
  "(ec_name e = Some name \<and> ec_vc_name e = Some vc_name \<and> ec_port_group e \<noteq> [] \<and>
    ec_gateway e = Some gateway_ip \<and> ec_netmask e = Some netmask \<and> ec_ip_range e \<noteq> [] \<and>
    restore_session w False = Inr ctx \<longrightarrow>
      remote_calls (external_create w e) =
        [Remote (Platform (client ctx))
           (Create_external_network
              \<lparr>er_name = name, er_vim_server_name = vc_name,
               er_port_group_names = ec_port_group e,
               er_gateway_ip = gateway_ip, er_netmask = netmask,
               er_ip_ranges = ec_ip_range e,
               er_description = Some (or_default (ec_description e) []),
               er_primary_dns_ip = ec_dns1 e, er_secondary_dns_ip = ec_dns2 e,
               er_dns_suffix = ec_dns_suffix e\<rparr>)]) \<and>
   (dc_name d = Some name \<and> dc_parent d = Some parent \<and>
    restore_session w True = Inr ctx \<longrightarrow>
      remote_calls (direct_create w d) =
        [Remote (VDC (client ctx) (vdc_href ctx))
           (Create_directly_connected_vdc_network
              \<lparr>dr_network_name = name, dr_parent_network_name = parent,
               dr_description = Some (or_default (dc_description d) []),
               dr_is_shared = or_default (dc_shared d) False\<rparr>)]) \<and>
   (ic_name i = Some name \<and> ic_gateway i = Some gateway_ip \<and> ic_netmask i = Some netmask \<and>
    restore_session w True = Inr ctx \<longrightarrow>
      remote_calls (isolated_create w i) =
        [Remote (VDC (client ctx) (vdc_href ctx))
           (Create_isolated_vdc_network
              \<lparr>ir_network_name = name, ir_gateway_ip = gateway_ip, ir_netmask = netmask,
               ir_description = Some (or_default (ic_description i) []),
               ir_primary_dns_ip = ic_dns1 i, ir_secondary_dns_ip = ic_dns2 i,
               ir_dns_suffix = ic_dns_suffix i,
               ir_ip_range_start = ic_ip_range_start i,
               ir_ip_range_end = ic_ip_range_end i,
               ir_is_dhcp_enabled = or_default (ic_dhcp_enabled i) False,
               ir_default_lease_time = ic_default_lease_time i,
               ir_max_lease_time = ic_max_lease_time i,
               ir_dhcp_ip_range_start = ic_dhcp_ip_range_start i,
               ir_dhcp_ip_range_end = ic_dhcp_ip_range_end i,
               ir_is_shared = or_default (ic_shared i) False\<rparr>)])"
proof (intro conjI impI)
  assume "ec_name e = Some name \<and> ec_vc_name e = Some vc_name \<and> ec_port_group e \<noteq> [] \<and>
    ec_gateway e = Some gateway_ip \<and> ec_netmask e = Some netmask \<and> ec_ip_range e \<noteq> [] \<and>
    restore_session w False = Inr ctx"
  then show "remote_calls (external_create w e) =
        [Remote (Platform (client ctx))
           (Create_external_network
              \<lparr>er_name = name, er_vim_server_name = vc_name,
               er_port_group_names = ec_port_group e,
               er_gateway_ip = gateway_ip, er_netmask = netmask,
               er_ip_ranges = ec_ip_range e,
               er_description = Some (or_default (ec_description e) []),
               er_primary_dns_ip = ec_dns1 e, er_secondary_dns_ip = ec_dns2 e,
               er_dns_suffix = ec_dns_suffix e\<rparr>)]"
    by (simp add: external_create_def required_def required_multiple_def
        calls_create_external)
next
  assume "dc_name d = Some name \<and> dc_parent d = Some parent \<and>
    restore_session w True = Inr ctx"
  then show "remote_calls (direct_create w d) =
        [Remote (VDC (client ctx) (vdc_href ctx))
           (Create_directly_connected_vdc_network
              \<lparr>dr_network_name = name, dr_parent_network_name = parent,
               dr_description = Some (or_default (dc_description d) []),
               dr_is_shared = or_default (dc_shared d) False\<rparr>)]"
    by (simp add: direct_create_def required_def calls_create_direct)
next
  assume "ic_name i = Some name \<and> ic_gateway i = Some gateway_ip \<and>
    ic_netmask i = Some netmask \<and> restore_session w True = Inr ctx"
  then show "remote_calls (isolated_create w i) =
        [Remote (VDC (client ctx) (vdc_href ctx))
           (Create_isolated_vdc_network
              \<lparr>ir_network_name = name, ir_gateway_ip = gateway_ip, ir_netmask = netmask,
               ir_description = Some (or_default (ic_description i) []),
               ir_primary_dns_ip = ic_dns1 i, ir_secondary_dns_ip = ic_dns2 i,
               ir_dns_suffix = ic_dns_suffix i,
               ir_ip_range_start = ic_ip_range_start i,
               ir_ip_range_end = ic_ip_range_end i,
               ir_is_dhcp_enabled = or_default (ic_dhcp_enabled i) False,
               ir_default_lease_time = ic_default_lease_time i,
               ir_max_lease_time = ic_max_lease_time i,
               ir_dhcp_ip_range_start = ic_dhcp_ip_range_start i,
               ir_dhcp_ip_range_end = ic_dhcp_ip_range_end i,
               ir_is_shared = or_default (ic_shared i) False\<rparr>)]"
    by (simp add: isolated_create_def required_def calls_create_isolated)
qed

theorem create_issues_one_call_with_the_arguments_witness:
  "remote_calls (external_create (sample_world (Some logged_in) accepting_sdk True)
      (sample_external_create [''pg1'', ''pg2'']
         [''10.0.0.2-10.0.0.9'', ''10.0.0.20-10.0.0.29''])) =
     [Remote (Platform ''token'')
        (Create_external_network
           \<lparr>er_name = ''external-net1'', er_vim_server_name = ''vc1'',
            er_port_group_names = [''pg1'', ''pg2''],
            er_gateway_ip = ''192.168.1.1'', er_netmask = ''255.255.255.0'',
            er_ip_ranges = [''10.0.0.2-10.0.0.9'', ''10.0.0.20-10.0.0.29''],
            er_description = Some ''External network'',
            er_primary_dns_ip = Some ''8.8.8.8'', er_secondary_dns_ip = Some ''8.8.8.9'',
            er_dns_suffix = Some ''example.com''\<rparr>)] \<and>
   remote_calls (direct_create (sample_world (Some logged_in) accepting_sdk True)
      sample_direct_create) =
     [Remote (VDC ''token'' (Some ''vdc-1''))
        (Create_directly_connected_vdc_network
           \<lparr>dr_network_name = ''direct-net1'', dr_parent_network_name = ''ext-net1'',
            dr_description = Some [], dr_is_shared = False\<rparr>)] \<and>
   remote_calls (isolated_create (sample_world (Some logged_in) accepting_sdk True)
      sample_isolated_create) =
     [Remote (VDC ''token'' (Some ''vdc-1''))
        (Create_isolated_vdc_network
           \<lparr>ir_network_name = ''isolated-net1'', ir_gateway_ip = ''192.168.1.1'',
            ir_netmask = ''255.255.255.0'', ir_description = Some [],
            ir_primary_dns_ip = Some ''8.8.8.8'', ir_secondary_dns_ip = None,
            ir_dns_suffix = Some ''example.com'',
            ir_ip_range_start = Some ''192.168.1.100'',
            ir_ip_range_end = Some ''192.168.1.199'', ir_is_dhcp_enabled = True,
            ir_default_lease_time = Some ''3600'', ir_max_lease_time = Some ''7200'',
            ir_dhcp_ip_range_start = Some ''192.168.1.100'',
            ir_dhcp_ip_range_end = Some ''192.168.1.199'', ir_is_shared = False\<rparr>)]"
proof -
  let ?w = "sample_world (Some logged_in) accepting_sdk True"
  let ?e = "sample_external_create [''pg1'', ''pg2'']
         [''10.0.0.2-10.0.0.9'', ''10.0.0.20-10.0.0.29'']"
  have platform: "restore_session ?w False = Inr logged_in"
    and vdc: "restore_session ?w True = Inr logged_in"
    by (simp_all add: restore_session_def sample_defs)
  have e: "ec_name ?e = Some ''external-net1'' \<and> ec_vc_name ?e = Some ''vc1'' \<and>
      ec_port_group ?e \<noteq> [] \<and> ec_gateway ?e = Some ''192.168.1.1'' \<and>
      ec_netmask ?e = Some ''255.255.255.0'' \<and> ec_ip_range ?e \<noteq> []"
    by (simp add: sample_defs)
  have d: "dc_name sample_direct_create = Some ''direct-net1'' \<and>
      dc_parent sample_direct_create = Some ''ext-net1''"
    by (simp add: sample_defs)
  have i: "ic_name sample_isolated_create = Some ''isolated-net1'' \<and>
      ic_gateway sample_isolated_create = Some ''192.168.1.1'' \<and>
      ic_netmask sample_isolated_create = Some ''255.255.255.0''"
    by (simp add: sample_defs)
  from create_issues_one_call_with_the_arguments
    [where e = ?e and w = ?w and ctx = logged_in and name = "''external-net1''"
       and vc_name = "''vc1''" and gateway_ip = "''192.168.1.1''"
       and netmask = "''255.255.255.0''"] e platform
  have 1: "remote_calls (external_create ?w ?e) =
        [Remote (Platform (client logged_in))
           (Create_external_network
              \<lparr>er_name = ''external-net1'', er_vim_server_name = ''vc1'',
               er_port_group_names = ec_port_group ?e,
               er_gateway_ip = ''192.168.1.1'', er_netmask = ''255.255.255.0'',
               er_ip_ranges = ec_ip_range ?e,
               er_description = Some (or_default (ec_description ?e) []),
               er_primary_dns_ip = ec_dns1 ?e, er_secondary_dns_ip = ec_dns2 ?e,
               er_dns_suffix = ec_dns_suffix ?e\<rparr>)]"
    by blast
  from create_issues_one_call_with_the_arguments
    [where d = sample_direct_create and w = ?w and ctx = logged_in
       and name = "''direct-net1''" and parent = "''ext-net1''"] d vdc
  have 2: "remote_calls (direct_create ?w sample_direct_create) =
        [Remote (VDC (client logged_in) (vdc_href logged_in))
           (Create_directly_connected_vdc_network
              \<lparr>dr_network_name = ''direct-net1'', dr_parent_network_name = ''ext-net1'',
               dr_description = Some (or_default (dc_description sample_direct_create) []),
               dr_is_shared = or_default (dc_shared sample_direct_create) False\<rparr>)]"
    by blast
  from create_issues_one_call_with_the_arguments
    [where i = sample_isolated_create and w = ?w and ctx = logged_in
       and name = "''isolated-net1''" and gateway_ip = "''192.168.1.1''"
       and netmask = "''255.255.255.0''"] i vdc
  have 3: "remote_calls (isolated_create ?w sample_isolated_create) =
        [Remote (VDC (client logged_in) (vdc_href logged_in))
           (Create_isolated_vdc_network
              \<lparr>ir_network_name = ''isolated-net1'', ir_gateway_ip = ''192.168.1.1'',
               ir_netmask = ''255.255.255.0'',
               ir_description = Some (or_default (ic_description sample_isolated_create) []),
               ir_primary_dns_ip = ic_dns1 sample_isolated_create,
               ir_secondary_dns_ip = ic_dns2 sample_isolated_create,
               ir_dns_suffix = ic_dns_suffix sample_isolated_create,
               ir_ip_range_start = ic_ip_range_start sample_isolated_create,
               ir_ip_range_end = ic_ip_range_end sample_isolated_create,
               ir_is_dhcp_enabled = or_default (ic_dhcp_enabled sample_isolated_create) False,
               ir_default_lease_time = ic_default_lease_time sample_isolated_create,
               ir_max_lease_time = ic_max_lease_time sample_isolated_create,
               ir_dhcp_ip_range_start = ic_dhcp_ip_range_start sample_isolated_create,
               ir_dhcp_ip_range_end = ic_dhcp_ip_range_end sample_isolated_create,
               ir_is_shared = or_default (ic_shared sample_isolated_create) False\<rparr>)]"
    by blast
  from 1 have "remote_calls (external_create ?w ?e) =
     [Remote (Platform ''token'')
        (Create_external_network
           \<lparr>er_name = ''external-net1'', er_vim_server_name = ''vc1'',
            er_port_group_names = [''pg1'', ''pg2''],
            er_gateway_ip = ''192.168.1.1'', er_netmask = ''255.255.255.0'',
            er_ip_ranges = [''10.0.0.2-10.0.0.9'', ''10.0.0.20-10.0.0.29''],
            er_description = Some ''External network'',
            er_primary_dns_ip = Some ''8.8.8.8'', er_secondary_dns_ip = Some ''8.8.8.9'',
            er_dns_suffix = Some ''example.com''\<rparr>)]"
    by (simp add: sample_defs or_default_def)
  moreover from 2 have "remote_calls (direct_create ?w sample_direct_create) =
     [Remote (VDC ''token'' (Some ''vdc-1''))
        (Create_directly_connected_vdc_network
           \<lparr>dr_network_name = ''direct-net1'', dr_parent_network_name = ''ext-net1'',
            dr_description = Some [], dr_is_shared = False\<rparr>)]"
    by (simp add: sample_defs or_default_def)
  moreover from 3 have "remote_calls (isolated_create ?w sample_isolated_create) =
     [Remote (VDC ''token'' (Some ''vdc-1''))
        (Create_isolated_vdc_network
           \<lparr>ir_network_name = ''isolated-net1'', ir_gateway_ip = ''192.168.1.1'',
            ir_netmask = ''255.255.255.0'', ir_description = Some [],
            ir_primary_dns_ip = Some ''8.8.8.8'', ir_secondary_dns_ip = None,
            ir_dns_suffix = Some ''example.com'',
            ir_ip_range_start = Some ''192.168.1.100'',
            ir_ip_range_end = Some ''192.168.1.199'', ir_is_dhcp_enabled = True,
            ir_default_lease_time = Some ''3600'', ir_max_lease_time = Some ''7200'',
            ir_dhcp_ip_range_start = Some ''192.168.1.100'',
            ir_dhcp_ip_range_end = Some ''192.168.1.199'', ir_is_shared = False\<rparr>)]"
    by (simp add: sample_defs or_default_def)
  ultimately show ?thesis by blast
qed

text \<open>
  Claim C10. For direct create and isolated create the options \<^verbatim>\<open>--description\<close>
  (declared \<^verbatim>\<open>default=''\<close>) and \<^verbatim>\<open>--shared/--not-shared\<close> (declared \<^verbatim>\<open>default=False\<close>)
  reach the remote create call with their defaults when they are omitted: the request
  carries the empty string as description, not None, and a false shared flag; a value
  given on the command line is forwarded as it is.
\<close>

theorem create_defaults_forwarded:
  "(dc_name d = Some name \<and> dc_parent d = Some parent \<and>
    restore_session w True = Inr ctx \<longrightarrow>
      (\<exists>req. remote_calls (direct_create w d) =
           [Remote (VDC (client ctx) (vdc_href ctx))
              (Create_directly_connected_vdc_network req)] \<and>
         dr_description req =
           (case dc_description d of None \<Rightarrow> Some [] | Some text \<Rightarrow> Some text) \<and>
         dr_is_shared req = (case dc_shared d of None \<Rightarrow> False | Some flag \<Rightarrow> flag))) \<and>
   (ic_name i = Some name \<and> ic_gateway i = Some gateway_ip \<and> ic_netmask i = Some netmask \<and>
    restore_session w True = Inr ctx \<longrightarrow>
      (\<exists>req. remote_calls (isolated_create w i) =
           [Remote (VDC (client ctx) (vdc_href ctx)) (Create_isolated_vdc_network req)] \<and>
         ir_description req =
           (case ic_description i of None \<Rightarrow> Some [] | Some text \<Rightarrow> Some text) \<and>
         ir_is_shared req = (case ic_shared i of None \<Rightarrow> False | Some flag \<Rightarrow> flag)))"
proof (intro conjI impI)
  assume "dc_name d = Some name \<and> dc_parent d = Some parent \<and>
    restore_session w True = Inr ctx"
  then show "\<exists>req. remote_calls (direct_create w d) =
           [Remote (VDC (client ctx) (vdc_href ctx))
              (Create_directly_connected_vdc_network req)] \<and>
         dr_description req =
           (case dc_description d of None \<Rightarrow> Some [] | Some text \<Rightarrow> Some text) \<and>
         dr_is_shared req = (case dc_shared d of None \<Rightarrow> False | Some flag \<Rightarrow> flag)"
    by (simp add: direct_create_def required_def calls_create_direct or_default_def
        split: option.splits)
next
  assume "ic_name i = Some name \<and> ic_gateway i = Some gateway_ip \<and>
    ic_netmask i = Some netmask \<and> restore_session w True = Inr ctx"
  then show "\<exists>req. remote_calls (isolated_create w i) =
           [Remote (VDC (client ctx) (vdc_href ctx)) (Create_isolated_vdc_network req)] \<and>
         ir_description req =
           (case ic_description i of None \<Rightarrow> Some [] | Some text \<Rightarrow> Some text) \<and>
         ir_is_shared req = (case ic_shared i of None \<Rightarrow> False | Some flag \<Rightarrow> flag)"
    by (simp add: isolated_create_def required_def calls_create_isolated or_default_def
        split: option.splits)
qed

theorem create_defaults_forwarded_witness:
  "dc_description sample_direct_create = None \<and> dc_shared sample_direct_create = None \<and>
   (\<exists>req. remote_calls (direct_create (sample_world (Some logged_in) rejecting_sdk True)
          sample_direct_create) =
        [Remote (VDC ''token'' (Some ''vdc-1'')) (Create_directly_connected_vdc_network req)] \<and>
      dr_description req = Some [] \<and> dr_is_shared req = False) \<and>
   ic_description sample_isolated_create = None \<and> ic_shared sample_isolated_create = None \<and>
   (\<exists>req. remote_calls (isolated_create (sample_world (Some logged_in) accepting_sdk True)
          sample_isolated_create) =
        [Remote (VDC ''token'' (Some ''vdc-1'')) (Create_isolated_vdc_network req)] \<and>
      ir_description req = Some [] \<and> ir_is_shared req = False)"
proof -
  let ?w = "sample_world (Some logged_in) accepting_sdk True"
  let ?w' = "sample_world (Some logged_in) rejecting_sdk True"
  have vdc: "restore_session ?w True = Inr logged_in"
    and vdc': "restore_session ?w' True = Inr logged_in"
    by (simp_all add: restore_session_def sample_defs)
  have d: "dc_name sample_direct_create = Some ''direct-net1'' \<and>
      dc_parent sample_direct_create = Some ''ext-net1''"
    and d0: "dc_description sample_direct_create = None \<and> dc_shared sample_direct_create = None"
    by (simp_all add: sample_defs)
  have i: "ic_name sample_isolated_create = Some ''isolated-net1'' \<and>
      ic_gateway sample_isolated_create = Some ''192.168.1.1'' \<and>
      ic_netmask sample_isolated_create = Some ''255.255.255.0''"
    and i0: "ic_description sample_isolated_create = None \<and>
      ic_shared sample_isolated_create = None"
    by (simp_all add: sample_defs)
  from create_defaults_forwarded
    [where d = sample_direct_create and w = ?w' and ctx = logged_in
       and name = "''direct-net1''" and parent = "''ext-net1''"] d vdc'
  obtain req where
    "remote_calls (direct_create ?w' sample_direct_create) =
       [Remote (VDC (client logged_in) (vdc_href logged_in))
          (Create_directly_connected_vdc_network req)]"
    "dr_description req =
       (case dc_description sample_direct_create of None \<Rightarrow> Some [] | Some text \<Rightarrow> Some text)"
    "dr_is_shared req =
       (case dc_shared sample_direct_create of None \<Rightarrow> False | Some flag \<Rightarrow> flag)"
    by blast
  with d0 have 1: "\<exists>req. remote_calls (direct_create ?w' sample_direct_create) =
        [Remote (VDC ''token'' (Some ''vdc-1'')) (Create_directly_connected_vdc_network req)] \<and>
      dr_description req = Some [] \<and> dr_is_shared req = False"
    by (simp add: logged_in_def)
  from create_defaults_forwarded
    [where i = sample_isolated_create and w = ?w and ctx = logged_in
       and name = "''isolated-net1''" and gateway_ip = "''192.168.1.1''"
       and netmask = "''255.255.255.0''"] i vdc
  obtain req' where
    "remote_calls (isolated_create ?w sample_isolated_create) =
       [Remote (VDC (client logged_in) (vdc_href logged_in)) (Create_isolated_vdc_network req')]"
    "ir_description req' =
       (case ic_description sample_isolated_create of None \<Rightarrow> Some [] | Some text \<Rightarrow> Some text)"
    "ir_is_shared req' =
       (case ic_shared sample_isolated_create of None \<Rightarrow> False | Some flag \<Rightarrow> flag)"
    by blast
  with i0 have 2: "\<exists>req. remote_calls (isolated_create ?w sample_isolated_create) =
        [Remote (VDC ''token'' (Some ''vdc-1'')) (Create_isolated_vdc_network req)] \<and>
      ir_description req = Some [] \<and> ir_is_shared req = False"
    by (simp add: logged_in_def)
  from d0 i0 1 2 show ?thesis by blast
qed

subsection \<open>Updating an external network\<close>

text \<open>
  Claim C5. \<^verbatim>\<open>external update\<close> issues one update call that carries the network's
  name as it was given and the two optional fields as they were parsed, an omitted one
  as None: nothing is filled in or replaced on the way. Without \<^verbatim>\<open>--name\<close>, with only
  \<^verbatim>\<open>--description\<close> or with neither option, the invocation succeeds (the two success
  outputs, exit status 0) when the remote side accepts the call, that is, returns the
  network with a queued task, which the handler reads before it prints.
\<close>

theorem external_update_forwards_what_was_given:
  "(eu_name a = Some name \<and> restore_session w False = Inr ctx \<longrightarrow>
      remote_calls (external_update w a) =
        [Remote (Platform (client ctx))
           (Update_external_network name (eu_new_name a) (eu_new_description a))]) \<and>
   (eu_name a = Some name \<and> eu_new_name a = None \<and>
    restore_session w False = Inr ctx \<and>
    sdk w (Platform (client ctx)) (Update_external_network name None (eu_new_description a)) =
      Inr (Entity (t # ts)) \<longrightarrow>
      external_update w a =
        \<lparr>exit_status = 0,
         events =
           [Restore False,
            Remote (Platform (client ctx))
              (Update_external_network name None (eu_new_description a)),
            Stdout (Task t),
            Stdout (Str ''External network updated successfully.'')]\<rparr>)"
proof (intro conjI impI)
  assume "eu_name a = Some name \<and> restore_session w False = Inr ctx"
  then have named: "eu_name a = Some name" and session: "restore_session w False = Inr ctx"
    by simp_all
  from named have "external_update w a =
      update_external_network w name (eu_new_name a) (eu_new_description a)"
    by (simp add: external_update_def required_def)
  with session show "remote_calls (external_update w a) =
        [Remote (Platform (client ctx))
           (Update_external_network name (eu_new_name a) (eu_new_description a))]"
    by (simp add: calls_update_external)
next
  assume given: "eu_name a = Some name \<and> eu_new_name a = None \<and>
    restore_session w False = Inr ctx \<and>
    sdk w (Platform (client ctx)) (Update_external_network name None (eu_new_description a)) =
      Inr (Entity (t # ts))"
  then have "external_update w a =
      update_external_network w name None (eu_new_description a)"
    by (simp add: external_update_def required_def)
  also from given have "\<dots> =
        \<lparr>exit_status = 0,
         events =
           [Restore False,
            Remote (Platform (client ctx))
              (Update_external_network name None (eu_new_description a)),
            Stdout (Task t),
            Stdout (Str ''External network updated successfully.'')]\<rparr>"
    by (simp add: run_update_accepted)
  finally show "external_update w a =
        \<lparr>exit_status = 0,
         events =
           [Restore False,
            Remote (Platform (client ctx))
              (Update_external_network name None (eu_new_description a)),
            Stdout (Task t),
            Stdout (Str ''External network updated successfully.'')]\<rparr>" .
qed

theorem external_update_forwards_what_was_given_witness:
  "external_update (sample_world (Some no_vdc) accepting_sdk True)
     (sample_update None (Some ''New external network'')) =
     \<lparr>exit_status = 0,
      events =
        [Restore False,
         Remote (Platform ''token'')
           (Update_external_network ''external-net1'' None (Some ''New external network'')),
         Stdout (Task ''task-2''),
         Stdout (Str ''External network updated successfully.'')]\<rparr> \<and>
   external_update (sample_world (Some no_vdc) accepting_sdk True) (sample_update None None) =
     \<lparr>exit_status = 0,
      events =
        [Restore False,
         Remote (Platform ''token'') (Update_external_network ''external-net1'' None None),
         Stdout (Task ''task-2''),
         Stdout (Str ''External network updated successfully.'')]\<rparr> \<and>
   remote_calls (external_update (sample_world (Some no_vdc) rejecting_sdk True)
     (sample_update (Some ''new-external-net1'') (Some ''New external network''))) =
     [Remote (Platform ''token'')
        (Update_external_network ''external-net1'' (Some ''new-external-net1'')
           (Some ''New external network''))]"
proof -
  let ?r = "sample_world (Some no_vdc) rejecting_sdk True"
  let ?b = "sample_update (Some ''new-external-net1'') (Some ''New external network'')"
  have b: "eu_name ?b = Some ''external-net1'' \<and> restore_session ?r False = Inr no_vdc"
    by (simp add: restore_session_def sample_defs)
  from external_update_forwards_what_was_given
    [where a = ?b and w = ?r and ctx = no_vdc and name = "''external-net1''"] b
  have both: "remote_calls (external_update ?r ?b) =
      [Remote (Platform (client no_vdc))
         (Update_external_network ''external-net1'' (eu_new_name ?b) (eu_new_description ?b))]"
    by blast
  let ?w = "sample_world (Some no_vdc) accepting_sdk True"
  let ?d = "sample_update None (Some ''New external network'')"
  let ?n = "sample_update None None"
  have session: "restore_session ?w False = Inr no_vdc"
    by (simp add: restore_session_def sample_defs)
  have d: "eu_name ?d = Some ''external-net1'' \<and> eu_new_name ?d = None \<and>
      sdk ?w (Platform (client no_vdc))
        (Update_external_network ''external-net1'' None (eu_new_description ?d)) =
        Inr (Entity (''task-2'' # []))"
    by (simp add: sample_defs)
  have n: "eu_name ?n = Some ''external-net1'' \<and> eu_new_name ?n = None \<and>
      sdk ?w (Platform (client no_vdc))
        (Update_external_network ''external-net1'' None (eu_new_description ?n)) =
        Inr (Entity (''task-2'' # []))"
    by (simp add: sample_defs)
  from external_update_forwards_what_was_given
    [where a = ?d and w = ?w and ctx = no_vdc and name = "''external-net1''"
       and t = "''task-2''" and ts = "[]"] d session
  have "external_update ?w ?d =
       \<lparr>exit_status = 0,
        events =
          [Restore False,
           Remote (Platform (client no_vdc))
             (Update_external_network ''external-net1'' None (eu_new_description ?d)),
           Stdout (Task ''task-2''),
           Stdout (Str ''External network updated successfully.'')]\<rparr>"
    by blast
  moreover
  from external_update_forwards_what_was_given
    [where a = ?n and w = ?w and ctx = no_vdc and name = "''external-net1''"
       and t = "''task-2''" and ts = "[]"] n session
  have "external_update ?w ?n =
       \<lparr>exit_status = 0,
        events =
          [Restore False,
           Remote (Platform (client no_vdc))
             (Update_external_network ''external-net1'' None (eu_new_description ?n)),
           Stdout (Task ''task-2''),
           Stdout (Str ''External network updated successfully.'')]\<rparr>"
    by blast
  ultimately show ?thesis using both by (simp add: sample_defs)
qed

subsection \<open>Listing networks\<close>

text \<open>
  Claim C6. When the session is restored and the remote listing returns the elements
  \<open>nets\<close>, each list command prints one sequence of records, one record per element
  and in the order of \<open>nets\<close>, each record holding the single field \<^verbatim>\<open>name\<close> with the
  element's name attribute; it writes nothing to the error stream and exits with
  status 0. An empty listing gives the empty sequence, printed the same way.
\<close>

theorem list_prints_names_in_remote_order:
  "(restore_session w False = Inr ctx \<and>
    sdk w (Platform (client ctx)) List_external_networks = Inr (Elements nets) \<longrightarrow>
      exit_status (external_list w) = 0 \<and> error_stream (external_list w) = [] \<and>
      output_stream (external_list w) =
        [Stdout (Dicts (map (\<lambda>net. [(''name'', map_of net ''name'')]) nets))]) \<and>
   (restore_session w True = Inr ctx \<and>
    sdk w (VDC (client ctx) (vdc_href ctx)) List_orgvdc_direct_networks = Inr (Elements nets) \<longrightarrow>
      exit_status (direct_list w) = 0 \<and> error_stream (direct_list w) = [] \<and>
      output_stream (direct_list w) =
        [Stdout (Dicts (map (\<lambda>net. [(''name'', map_of net ''name'')]) nets))]) \<and>
   (restore_session w True = Inr ctx \<and>
    sdk w (VDC (client ctx) (vdc_href ctx)) List_orgvdc_isolated_networks = Inr (Elements nets) \<longrightarrow>
      exit_status (isolated_list w) = 0 \<and> error_stream (isolated_list w) = [] \<and>
      output_stream (isolated_list w) =
        [Stdout (Dicts (map (\<lambda>net. [(''name'', map_of net ''name'')]) nets))])"
  by (simp add: external_list_def direct_list_def isolated_list_def
      run_list_external_returned run_list_direct_returned run_list_isolated_returned
      stream_defs)

theorem list_prints_names_in_remote_order_witness:
  "exit_status (external_list (sample_world (Some no_vdc) accepting_sdk True)) = 0 \<and>
   error_stream (external_list (sample_world (Some no_vdc) accepting_sdk True)) = [] \<and>
   output_stream (external_list (sample_world (Some no_vdc) accepting_sdk True)) =
     [Stdout (Dicts [[(''name'', Some ''net-b'')], [(''name'', Some ''net-a'')]])] \<and>
   exit_status (direct_list (sample_world (Some logged_in) empty_sdk True)) = 0 \<and>
   error_stream (direct_list (sample_world (Some logged_in) empty_sdk True)) = [] \<and>
   output_stream (direct_list (sample_world (Some logged_in) empty_sdk True)) =
     [Stdout (Dicts [])] \<and>
   exit_status (isolated_list (sample_world (Some logged_in) accepting_sdk True)) = 0 \<and>
   output_stream (isolated_list (sample_world (Some logged_in) accepting_sdk True)) =
     [Stdout (Dicts [[(''name'', Some ''net-b'')], [(''name'', Some ''net-a'')]])]"
proof -
  let ?w = "sample_world (Some no_vdc) accepting_sdk True"
  let ?v = "sample_world (Some logged_in) accepting_sdk True"
  let ?e = "sample_world (Some logged_in) empty_sdk True"
  let ?nets = "[[(''name'', ''net-b''), (''id'', ''7'')], [(''name'', ''net-a'')]]"
  have external: "restore_session ?w False = Inr no_vdc \<and>
      sdk ?w (Platform (client no_vdc)) List_external_networks = Inr (Elements ?nets)"
    by (simp add: restore_session_def sample_defs)
  have direct: "restore_session ?e True = Inr logged_in \<and>
      sdk ?e (VDC (client logged_in) (vdc_href logged_in)) List_orgvdc_direct_networks =
        Inr (Elements [])"
    by (simp add: restore_session_def sample_defs)
  have isolated: "restore_session ?v True = Inr logged_in \<and>
      sdk ?v (VDC (client logged_in) (vdc_href logged_in)) List_orgvdc_isolated_networks =
        Inr (Elements ?nets)"
    by (simp add: restore_session_def sample_defs)
  from list_prints_names_in_remote_order [where w = ?w and ctx = no_vdc and nets = ?nets]
    external
  have 1: "exit_status (external_list ?w) = 0 \<and> error_stream (external_list ?w) = [] \<and>
      output_stream (external_list ?w) =
        [Stdout (Dicts (map (\<lambda>net. [(''name'', map_of net ''name'')]) ?nets))]"
    by blast
  from list_prints_names_in_remote_order [where w = ?e and ctx = logged_in and nets = "[]"]
    direct
  have 2: "exit_status (direct_list ?e) = 0 \<and> error_stream (direct_list ?e) = [] \<and>
      output_stream (direct_list ?e) =
        [Stdout (Dicts (map (\<lambda>net. [(''name'', map_of net ''name'')]) []))]"
    by blast
  from list_prints_names_in_remote_order [where w = ?v and ctx = logged_in and nets = ?nets]
    isolated
  have 3: "exit_status (isolated_list ?v) = 0 \<and>
      output_stream (isolated_list ?v) =
        [Stdout (Dicts (map (\<lambda>net. [(''name'', map_of net ''name'')]) ?nets))]"
    by blast
  from 1 2 3 show ?thesis by simp
qed

subsection \<open>Commands that need a selected vdc\<close>

text \<open>
  Claim C2. In a session context with no vdc selected, direct create, isolated create,
  direct list, isolated list, direct delete and isolated delete issue no remote call,
  whatever the command line; and every invocation that gets through click's processing
  of the parameters (the required parameters are given and, for the deletes, \<^verbatim>\<open>--yes\<close>
  is given or the question is answered yes) fails with NoVdcSelected: the one message on
  the error stream, a non-zero exit status. The six handlers call
  \<^verbatim>\<open>restore_session(ctx, vdc_required=True)\<close> as their first statement.
\<close>

theorem no_vdc_selected_fails_before_remote:
  "cached_session w = Some ctx \<and> vdc_href ctx = None \<longrightarrow>
     (dc_name dc \<noteq> None \<and> dc_parent dc \<noteq> None \<longrightarrow>
        direct_create w dc =
          \<lparr>exit_status = 1, events = [Restore True, Stderr NoVdcSelected]\<rparr>) \<and>
     (ic_name ic \<noteq> None \<and> ic_gateway ic \<noteq> None \<and> ic_netmask ic \<noteq> None \<longrightarrow>
        isolated_create w ic =
          \<lparr>exit_status = 1, events = [Restore True, Stderr NoVdcSelected]\<rparr>) \<and>
     direct_list w = \<lparr>exit_status = 1, events = [Restore True, Stderr NoVdcSelected]\<rparr> \<and>
     isolated_list w = \<lparr>exit_status = 1, events = [Restore True, Stderr NoVdcSelected]\<rparr> \<and>
     (del_name da \<noteq> None \<and> (del_yes da \<or> confirm_answer w) \<longrightarrow>
        exit_status (direct_delete w da) = 1 \<and>
        error_stream (direct_delete w da) = [Stderr NoVdcSelected] \<and>
        exit_status (isolated_delete w da) = 1 \<and>
        error_stream (isolated_delete w da) = [Stderr NoVdcSelected]) \<and>
     remote_calls (direct_create w dc) = [] \<and>
     remote_calls (isolated_create w ic) = [] \<and>
     remote_calls (direct_list w) = [] \<and>
     remote_calls (isolated_list w) = [] \<and>
     remote_calls (direct_delete w da) = [] \<and>
     remote_calls (isolated_delete w da) = []"
proof (intro impI)
  assume "cached_session w = Some ctx \<and> vdc_href ctx = None"
  then have session: "cached_session w = Some ctx" and none: "vdc_href ctx = None"
    by simp_all
  note h = no_vdc_handlers [OF session none]
  note silent = no_vdc_commands_silent [OF session none]
  have "dc_name dc \<noteq> None \<and> dc_parent dc \<noteq> None \<longrightarrow>
        direct_create w dc =
          \<lparr>exit_status = 1, events = [Restore True, Stderr NoVdcSelected]\<rparr>"
    by (auto simp: direct_create_def required_def h)
  moreover have "ic_name ic \<noteq> None \<and> ic_gateway ic \<noteq> None \<and> ic_netmask ic \<noteq> None \<longrightarrow>
        isolated_create w ic =
          \<lparr>exit_status = 1, events = [Restore True, Stderr NoVdcSelected]\<rparr>"
    by (auto simp: isolated_create_def required_def h)
  moreover have "direct_list w =
      \<lparr>exit_status = 1, events = [Restore True, Stderr NoVdcSelected]\<rparr>"
    by (simp add: direct_list_def h)
  moreover have "isolated_list w =
      \<lparr>exit_status = 1, events = [Restore True, Stderr NoVdcSelected]\<rparr>"
    by (simp add: isolated_list_def h)
  moreover have "del_name da \<noteq> None \<and> (del_yes da \<or> confirm_answer w) \<longrightarrow>
        exit_status (direct_delete w da) = 1 \<and>
        error_stream (direct_delete w da) = [Stderr NoVdcSelected] \<and>
        exit_status (isolated_delete w da) = 1 \<and>
        error_stream (isolated_delete w da) = [Stderr NoVdcSelected]"
    by (auto simp: direct_delete_named isolated_delete_named h error_stream_def
        preceded_by_def)
  ultimately show "(dc_name dc \<noteq> None \<and> dc_parent dc \<noteq> None \<longrightarrow>
        direct_create w dc =
          \<lparr>exit_status = 1, events = [Restore True, Stderr NoVdcSelected]\<rparr>) \<and>
     (ic_name ic \<noteq> None \<and> ic_gateway ic \<noteq> None \<and> ic_netmask ic \<noteq> None \<longrightarrow>
        isolated_create w ic =
          \<lparr>exit_status = 1, events = [Restore True, Stderr NoVdcSelected]\<rparr>) \<and>
     direct_list w = \<lparr>exit_status = 1, events = [Restore True, Stderr NoVdcSelected]\<rparr> \<and>
     isolated_list w = \<lparr>exit_status = 1, events = [Restore True, Stderr NoVdcSelected]\<rparr> \<and>
     (del_name da \<noteq> None \<and> (del_yes da \<or> confirm_answer w) \<longrightarrow>
        exit_status (direct_delete w da) = 1 \<and>
        error_stream (direct_delete w da) = [Stderr NoVdcSelected] \<and>
        exit_status (isolated_delete w da) = 1 \<and>
        error_stream (isolated_delete w da) = [Stderr NoVdcSelected]) \<and>
     remote_calls (direct_create w dc) = [] \<and>
     remote_calls (isolated_create w ic) = [] \<and>
     remote_calls (direct_list w) = [] \<and>
     remote_calls (isolated_list w) = [] \<and>
     remote_calls (direct_delete w da) = [] \<and>
     remote_calls (isolated_delete w da) = []"
    using silent by blast
qed

theorem no_vdc_selected_fails_before_remote_witness:
  "cached_session (sample_world (Some no_vdc) accepting_sdk True) = Some no_vdc \<and>
   vdc_href no_vdc = None \<and>
   direct_create (sample_world (Some no_vdc) accepting_sdk True) sample_direct_create =
     \<lparr>exit_status = 1, events = [Restore True, Stderr NoVdcSelected]\<rparr> \<and>
   isolated_create (sample_world (Some no_vdc) accepting_sdk True) sample_isolated_create =
     \<lparr>exit_status = 1, events = [Restore True, Stderr NoVdcSelected]\<rparr> \<and>
   direct_list (sample_world (Some no_vdc) accepting_sdk True) =
     \<lparr>exit_status = 1, events = [Restore True, Stderr NoVdcSelected]\<rparr> \<and>
   isolated_list (sample_world (Some no_vdc) accepting_sdk True) =
     \<lparr>exit_status = 1, events = [Restore True, Stderr NoVdcSelected]\<rparr> \<and>
   exit_status (direct_delete (sample_world (Some no_vdc) accepting_sdk True)
     (sample_delete False False)) = 1 \<and>
   error_stream (direct_delete (sample_world (Some no_vdc) accepting_sdk True)
     (sample_delete False False)) = [Stderr NoVdcSelected] \<and>
   exit_status (isolated_delete (sample_world (Some no_vdc) accepting_sdk True)
     (sample_delete False False)) = 1 \<and>
   error_stream (isolated_delete (sample_world (Some no_vdc) accepting_sdk True)
     (sample_delete False False)) = [Stderr NoVdcSelected] \<and>
   remote_calls (direct_create (sample_world (Some no_vdc) accepting_sdk True)
     sample_direct_create) = [] \<and>
   remote_calls (isolated_create (sample_world (Some no_vdc) accepting_sdk True)
     sample_isolated_create) = [] \<and>
   remote_calls (direct_list (sample_world (Some no_vdc) accepting_sdk True)) = [] \<and>
   remote_calls (isolated_list (sample_world (Some no_vdc) accepting_sdk True)) = [] \<and>
   remote_calls (direct_delete (sample_world (Some no_vdc) accepting_sdk True)
     (sample_delete False False)) = [] \<and>
   remote_calls (isolated_delete (sample_world (Some no_vdc) accepting_sdk True)
     (sample_delete False False)) = []"
proof -
  let ?w = "sample_world (Some no_vdc) accepting_sdk True"
  let ?da = "sample_delete False False"
  have session: "cached_session ?w = Some no_vdc \<and> vdc_href no_vdc = None"
    by (simp add: sample_defs)
  have dc: "dc_name sample_direct_create \<noteq> None \<and> dc_parent sample_direct_create \<noteq> None"
    by (simp add: sample_defs)
  have ic: "ic_name sample_isolated_create \<noteq> None \<and>
      ic_gateway sample_isolated_create \<noteq> None \<and> ic_netmask sample_isolated_create \<noteq> None"
    by (simp add: sample_defs)
  have da: "del_name ?da \<noteq> None \<and> (del_yes ?da \<or> confirm_answer ?w)"
    by (simp add: sample_defs)
  from no_vdc_selected_fails_before_remote
    [where w = ?w and ctx = no_vdc and dc = sample_direct_create
       and ic = sample_isolated_create and da = ?da]
    session dc ic da
  show ?thesis by blast
qed

subsection \<open>Deleting networks\<close>

text \<open>
  Claim C8. For direct delete and isolated delete the confirmation question depends on
  \<^verbatim>\<open>--yes\<close> alone: with \<^verbatim>\<open>--yes\<close> nothing is asked, without it the question is asked
  once, whether \<^verbatim>\<open>--force\<close> is given or not. The question is the first thing that
  happens, while click processes the parameters: it comes before the session
  restoration and before any remote call, and on a negative answer the invocation ends
  there, with neither of them.
\<close>

theorem orgvdc_delete_asks_unless_yes:
  "del_name a = Some name \<longrightarrow>
     prompts (direct_delete w a) =
       (if del_yes a then []
        else [Prompt ''Are you sure you want to delete the OrgVdc Network?'']) \<and>
     prompts (isolated_delete w a) =
       (if del_yes a then []
        else [Prompt ''Are you sure you want to delete the OrgVdc Network?'']) \<and>
     (\<not> del_yes a \<longrightarrow>
        (\<exists>rest. events (direct_delete w a) =
           Prompt ''Are you sure you want to delete the OrgVdc Network?'' # rest) \<and>
        (\<exists>rest. events (isolated_delete w a) =
           Prompt ''Are you sure you want to delete the OrgVdc Network?'' # rest)) \<and>
     (\<not> del_yes a \<and> \<not> confirm_answer w \<longrightarrow>
        direct_delete w a =
          \<lparr>exit_status = 0,
           events = [Prompt ''Are you sure you want to delete the OrgVdc Network?'']\<rparr> \<and>
        isolated_delete w a =
          \<lparr>exit_status = 0,
           events = [Prompt ''Are you sure you want to delete the OrgVdc Network?'']\<rparr>)"
proof (intro impI)
  assume named: "del_name a = Some name"
  note d = direct_delete_named [OF named, of w]
  note i = isolated_delete_named [OF named, of w]
  have quiet: "prompts (delete_direct_networks w name (del_force a)) = []"
    "prompts (delete_isolated_networks w name (del_force a)) = []"
    by (rule handler_run_no_prompt [OF run_delete_direct],
        rule handler_run_no_prompt [OF run_delete_isolated])
  have "prompts (direct_delete w a) =
       (if del_yes a then []
        else [Prompt ''Are you sure you want to delete the OrgVdc Network?''])"
    using quiet by (simp add: d) (simp add: prompts_def)
  moreover have "prompts (isolated_delete w a) =
       (if del_yes a then []
        else [Prompt ''Are you sure you want to delete the OrgVdc Network?''])"
    using quiet by (simp add: i) (simp add: prompts_def)
  moreover have "\<not> del_yes a \<longrightarrow>
        (\<exists>rest. events (direct_delete w a) =
           Prompt ''Are you sure you want to delete the OrgVdc Network?'' # rest) \<and>
        (\<exists>rest. events (isolated_delete w a) =
           Prompt ''Are you sure you want to delete the OrgVdc Network?'' # rest)"
    by (simp add: d i)
  moreover have "\<not> del_yes a \<and> \<not> confirm_answer w \<longrightarrow>
        direct_delete w a =
          \<lparr>exit_status = 0,
           events = [Prompt ''Are you sure you want to delete the OrgVdc Network?'']\<rparr> \<and>
        isolated_delete w a =
          \<lparr>exit_status = 0,
           events = [Prompt ''Are you sure you want to delete the OrgVdc Network?'']\<rparr>"
    by (simp add: d i)
  ultimately show "prompts (direct_delete w a) =
       (if del_yes a then []
        else [Prompt ''Are you sure you want to delete the OrgVdc Network?'']) \<and>
     prompts (isolated_delete w a) =
       (if del_yes a then []
        else [Prompt ''Are you sure you want to delete the OrgVdc Network?'']) \<and>
     (\<not> del_yes a \<longrightarrow>
        (\<exists>rest. events (direct_delete w a) =
           Prompt ''Are you sure you want to delete the OrgVdc Network?'' # rest) \<and>
        (\<exists>rest. events (isolated_delete w a) =
           Prompt ''Are you sure you want to delete the OrgVdc Network?'' # rest)) \<and>
     (\<not> del_yes a \<and> \<not> confirm_answer w \<longrightarrow>
        direct_delete w a =
          \<lparr>exit_status = 0,
           events = [Prompt ''Are you sure you want to delete the OrgVdc Network?'']\<rparr> \<and>
        isolated_delete w a =
          \<lparr>exit_status = 0,
           events = [Prompt ''Are you sure you want to delete the OrgVdc Network?'']\<rparr>)"
    by blast
qed

theorem orgvdc_delete_asks_unless_yes_witness:
  "del_force (sample_delete True False) = True \<and> del_yes (sample_delete True False) = False \<and>
   prompts (direct_delete (sample_world (Some logged_in) accepting_sdk False)
     (sample_delete True False)) =
     [Prompt ''Are you sure you want to delete the OrgVdc Network?''] \<and>
   direct_delete (sample_world (Some logged_in) accepting_sdk False)
     (sample_delete True False) =
     \<lparr>exit_status = 0,
      events = [Prompt ''Are you sure you want to delete the OrgVdc Network?'']\<rparr> \<and>
   isolated_delete (sample_world (Some logged_in) accepting_sdk False)
     (sample_delete True False) =
     \<lparr>exit_status = 0,
      events = [Prompt ''Are you sure you want to delete the OrgVdc Network?'']\<rparr> \<and>
   (\<exists>rest. events (isolated_delete (sample_world (Some logged_in) accepting_sdk True)
       (sample_delete True False)) =
       Prompt ''Are you sure you want to delete the OrgVdc Network?'' # rest) \<and>
   prompts (isolated_delete (sample_world (Some logged_in) accepting_sdk False)
     (sample_delete False True)) = []"
proof -
  let ?no = "sample_world (Some logged_in) accepting_sdk False"
  let ?yes = "sample_world (Some logged_in) accepting_sdk True"
  let ?forced = "sample_delete True False"
  let ?sure = "sample_delete False True"
  have forced: "del_name ?forced = Some ''net1''" "del_force ?forced = True"
    "del_yes ?forced = False"
    and sure: "del_name ?sure = Some ''net1''" "del_yes ?sure = True"
    and no: "\<not> confirm_answer ?no"
    by (simp_all add: sample_defs)
  from orgvdc_delete_asks_unless_yes [where a = ?forced and w = ?no and name = "''net1''"]
    forced no
  have 1: "prompts (direct_delete ?no ?forced) =
      [Prompt ''Are you sure you want to delete the OrgVdc Network?''] \<and>
    direct_delete ?no ?forced =
      \<lparr>exit_status = 0,
       events = [Prompt ''Are you sure you want to delete the OrgVdc Network?'']\<rparr> \<and>
    isolated_delete ?no ?forced =
      \<lparr>exit_status = 0,
       events = [Prompt ''Are you sure you want to delete the OrgVdc Network?'']\<rparr>"
    by (simp add: prompts_def)
  from orgvdc_delete_asks_unless_yes [where a = ?forced and w = ?yes and name = "''net1''"]
    forced
  have 2: "\<exists>rest. events (isolated_delete ?yes ?forced) =
      Prompt ''Are you sure you want to delete the OrgVdc Network?'' # rest"
    by simp
  from orgvdc_delete_asks_unless_yes [where a = ?sure and w = ?no and name = "''net1''"]
    sure
  have 3: "prompts (isolated_delete ?no ?sure) = []"
    by simp
  from forced 1 2 3 show ?thesis by blast
qed

text \<open>
  External delete is declared with the argument \<^verbatim>\<open>name\<close> and no option: it has no
  \<^verbatim>\<open>--yes\<close>, no prompt and no callback. With a user who would answer no, external
  delete asks nothing and issues its remote delete call.
\<close>

theorem external_delete_does_not_ask:
  "confirm_answer (sample_world (Some logged_in) accepting_sdk False) = False \<and>
   external_delete (sample_world (Some logged_in) accepting_sdk False)
     (Some ''external-net1'') =
     \<lparr>exit_status = 0,
      events =
        [Restore False,
         Remote (Platform ''token'') (Delete_external_network ''external-net1''),
         Stdout (Task ''task-3''),
         Stdout (Str ''External network deleted successfully.'')]\<rparr> \<and>
   prompts (external_delete (sample_world (Some logged_in) accepting_sdk False)
     (Some ''external-net1'')) = [] \<and>
   remote_calls (external_delete (sample_world (Some logged_in) accepting_sdk False)
     (Some ''external-net1'')) =
     [Remote (Platform ''token'') (Delete_external_network ''external-net1'')]"
  by (simp add: run_defs stream_defs)

text \<open>
  Claim C1, as the code has it. Direct delete and isolated delete, when \<^verbatim>\<open>--yes\<close> is
  not given, ask for confirmation before anything else; on a negative answer the
  invocation ends with no session restoration, no remote call and exit status 0; on an
  affirmative answer, once the session is restored with a vdc selected, exactly one
  remote delete call is issued, for the named network and with the given force flag.
  External delete has no confirmation gate: it never asks, and with a restored session
  it issues exactly one remote delete call.
\<close>

theorem delete_confirmation_gate:
  "(del_name a = Some name \<and> \<not> del_yes a \<longrightarrow>
      (\<exists>rest. events (direct_delete w a) =
         Prompt ''Are you sure you want to delete the OrgVdc Network?'' # rest) \<and>
      (\<exists>rest. events (isolated_delete w a) =
         Prompt ''Are you sure you want to delete the OrgVdc Network?'' # rest) \<and>
      (\<not> confirm_answer w \<longrightarrow>
         direct_delete w a =
           \<lparr>exit_status = 0,
            events = [Prompt ''Are you sure you want to delete the OrgVdc Network?'']\<rparr> \<and>
         isolated_delete w a =
           \<lparr>exit_status = 0,
            events = [Prompt ''Are you sure you want to delete the OrgVdc Network?'']\<rparr>) \<and>
      (confirm_answer w \<and> restore_session w True = Inr ctx \<longrightarrow>
         remote_calls (direct_delete w a) =
           [Remote (VDC (client ctx) (vdc_href ctx))
              (Delete_direct_orgvdc_network name (del_force a))] \<and>
         remote_calls (isolated_delete w a) =
           [Remote (VDC (client ctx) (vdc_href ctx))
              (Delete_isolated_orgvdc_network name (del_force a))])) \<and>
   prompts (external_delete w arg) = [] \<and>
   (arg = Some name \<and> restore_session w False = Inr ctx \<longrightarrow>
      remote_calls (external_delete w arg) =
        [Remote (Platform (client ctx)) (Delete_external_network name)])"
proof -
  have gate: "(\<exists>rest. events (direct_delete w a) =
         Prompt ''Are you sure you want to delete the OrgVdc Network?'' # rest) \<and>
      (\<exists>rest. events (isolated_delete w a) =
         Prompt ''Are you sure you want to delete the OrgVdc Network?'' # rest) \<and>
      (\<not> confirm_answer w \<longrightarrow>
         direct_delete w a =
           \<lparr>exit_status = 0,
            events = [Prompt ''Are you sure you want to delete the OrgVdc Network?'']\<rparr> \<and>
         isolated_delete w a =
           \<lparr>exit_status = 0,
            events = [Prompt ''Are you sure you want to delete the OrgVdc Network?'']\<rparr>) \<and>
      (confirm_answer w \<and> restore_session w True = Inr ctx \<longrightarrow>
         remote_calls (direct_delete w a) =
           [Remote (VDC (client ctx) (vdc_href ctx))
              (Delete_direct_orgvdc_network name (del_force a))] \<and>
         remote_calls (isolated_delete w a) =
           [Remote (VDC (client ctx) (vdc_href ctx))
              (Delete_isolated_orgvdc_network name (del_force a))])"
    if "del_name a = Some name \<and> \<not> del_yes a"
  proof -
    from that have named: "del_name a = Some name" and unsure: "\<not> del_yes a"
      by simp_all
    note d = direct_delete_named [OF named, of w]
    note i = isolated_delete_named [OF named, of w]
    from unsure show ?thesis
      by (simp add: d i calls_delete_direct calls_delete_isolated)
  qed
  have silent: "prompts (external_delete w arg) = []"
  proof (cases arg)
    case None
    then show ?thesis
      by (simp add: external_delete_def required_def usage_error_def prompts_def)
  next
    case (Some n)
    then show ?thesis
      by (simp add: external_delete_def required_def
          handler_run_no_prompt [OF run_delete_external])
  qed
  have direct: "remote_calls (external_delete w arg) =
        [Remote (Platform (client ctx)) (Delete_external_network name)]"
    if "arg = Some name \<and> restore_session w False = Inr ctx"
    using that by (simp add: external_delete_def required_def calls_delete_external)
  from gate silent direct show ?thesis by blast
qed

theorem delete_confirmation_gate_witness:
  "del_yes (sample_delete False False) = False \<and>
   direct_delete (sample_world (Some logged_in) accepting_sdk False)
     (sample_delete False False) =
     \<lparr>exit_status = 0,
      events = [Prompt ''Are you sure you want to delete the OrgVdc Network?'']\<rparr> \<and>
   isolated_delete (sample_world (Some logged_in) accepting_sdk False)
     (sample_delete False False) =
     \<lparr>exit_status = 0,
      events = [Prompt ''Are you sure you want to delete the OrgVdc Network?'']\<rparr> \<and>
   (\<exists>rest. events (direct_delete (sample_world (Some logged_in) accepting_sdk True)
       (sample_delete False False)) =
       Prompt ''Are you sure you want to delete the OrgVdc Network?'' # rest) \<and>
   remote_calls (direct_delete (sample_world (Some logged_in) accepting_sdk True)
     (sample_delete False False)) =
     [Remote (VDC ''token'' (Some ''vdc-1'')) (Delete_direct_orgvdc_network ''net1'' False)] \<and>
   remote_calls (isolated_delete (sample_world (Some logged_in) accepting_sdk True)
     (sample_delete False False)) =
     [Remote (VDC ''token'' (Some ''vdc-1'')) (Delete_isolated_orgvdc_network ''net1'' False)] \<and>
   prompts (external_delete (sample_world (Some logged_in) accepting_sdk True)
     (Some ''external-net1'')) = [] \<and>
   remote_calls (external_delete (sample_world (Some logged_in) accepting_sdk True)
     (Some ''external-net1'')) =
     [Remote (Platform ''token'') (Delete_external_network ''external-net1'')]"
proof -
  let ?no = "sample_world (Some logged_in) accepting_sdk False"
  let ?yes = "sample_world (Some logged_in) accepting_sdk True"
  let ?a = "sample_delete False False"
  have a: "del_name ?a = Some ''net1''" "del_yes ?a = False" "del_force ?a = False"
    and no: "\<not> confirm_answer ?no" and yes: "confirm_answer ?yes"
    and vdc: "restore_session ?yes True = Inr logged_in"
    and platform: "restore_session ?yes False = Inr logged_in"
    and token: "client logged_in = ''token''" "vdc_href logged_in = Some ''vdc-1''"
    by (simp_all add: restore_session_def sample_defs)
  from delete_confirmation_gate [where a = ?a and w = ?no and name = "''net1''"] a no
  have 1: "direct_delete ?no ?a =
      \<lparr>exit_status = 0,
       events = [Prompt ''Are you sure you want to delete the OrgVdc Network?'']\<rparr> \<and>
    isolated_delete ?no ?a =
      \<lparr>exit_status = 0,
       events = [Prompt ''Are you sure you want to delete the OrgVdc Network?'']\<rparr>"
    by simp
  from delete_confirmation_gate
    [where a = ?a and w = ?yes and name = "''net1''" and ctx = logged_in] a yes vdc token
  have 2: "(\<exists>rest. events (direct_delete ?yes ?a) =
       Prompt ''Are you sure you want to delete the OrgVdc Network?'' # rest) \<and>
    remote_calls (direct_delete ?yes ?a) =
      [Remote (VDC ''token'' (Some ''vdc-1'')) (Delete_direct_orgvdc_network ''net1'' False)] \<and>
    remote_calls (isolated_delete ?yes ?a) =
      [Remote (VDC ''token'' (Some ''vdc-1'')) (Delete_isolated_orgvdc_network ''net1'' False)]"
    by simp
  from delete_confirmation_gate
    [where w = ?yes and arg = "Some ''external-net1''" and name = "''external-net1''"
       and ctx = logged_in] platform token
  have 3: "prompts (external_delete ?yes (Some ''external-net1'')) = [] \<and>
    remote_calls (external_delete ?yes (Some ''external-net1'')) =
      [Remote (Platform ''token'') (Delete_external_network ''external-net1'')]"
    by simp
  from a 1 2 3 show ?thesis by simp
qed

end
